theory Spec2Isabelle
  imports Main "HOL-Library.Word"
begin

unbundle bit_operations_syntax

section \<open>Azoteq IQS5xx driver: bus layer, bootloader protocol, firmware parser, flash\<close>

text \<open>
  A shallow embedding of \<^verbatim>\<open>drivers/input/touchscreen/iqs5xx.c\<close>. Every C function that
  returns an \<^verbatim>\<open>int\<close> status is a HOL function returning that status (0 for success, a
  negative errno otherwise) together with the driver state after the call. Everything
  outside the driver (the I2C adapter, the firmware loader, the allocator, the input
  core) is an explicit parameter of type \<open>env\<close>; the calls the driver makes to it are
  recorded, in order, in the \<open>log\<close> of the state. Delays (\<^verbatim>\<open>usleep_range\<close>,
  \<^verbatim>\<open>msleep\<close>) and diagnostic messages (\<^verbatim>\<open>dev_err\<close>) have no effect on control flow
  and are left out.
\<close>

subsection \<open>Machine types and constants\<close>

type_synonym u8 = "8 word"
type_synonym u16 = "16 word"
type_synonym u32 = "32 word"

abbreviation (input) EPERM :: int where "EPERM \<equiv> 1"
abbreviation (input) EIO :: int where "EIO \<equiv> 5"
abbreviation (input) ENOMEM :: int where "ENOMEM \<equiv> 12"
abbreviation (input) EINVAL :: int where "EINVAL \<equiv> 22"
abbreviation (input) ENAMETOOLONG :: int where "ENAMETOOLONG \<equiv> 36"

abbreviation (input) IQS5XX_FW_FILE_LEN :: nat where "IQS5XX_FW_FILE_LEN \<equiv> 64"
abbreviation (input) IQS5XX_NUM_RETRIES :: nat where "IQS5XX_NUM_RETRIES \<equiv> 10"
abbreviation (input) IQS5XX_WR_BYTES_MAX :: nat where "IQS5XX_WR_BYTES_MAX \<equiv> 2"

abbreviation (input) IQS5XX_RESUME :: u8 where "IQS5XX_RESUME \<equiv> 0x00"
abbreviation (input) IQS5XX_SUSPEND :: u8 where "IQS5XX_SUSPEND \<equiv> 0x01"

abbreviation (input) IQS5XX_PROD_NUM :: u16 where "IQS5XX_PROD_NUM \<equiv> 0x0000"
abbreviation (input) IQS5XX_SYS_CTRL1 :: u16 where "IQS5XX_SYS_CTRL1 \<equiv> 0x0432"
abbreviation (input) IQS5XX_SYS_CFG0 :: u16 where "IQS5XX_SYS_CFG0 \<equiv> 0x058E"
abbreviation (input) IQS5XX_SYS_CFG1 :: u16 where "IQS5XX_SYS_CFG1 \<equiv> 0x058F"
abbreviation (input) IQS5XX_TOTAL_RX :: u16 where "IQS5XX_TOTAL_RX \<equiv> 0x063D"
abbreviation (input) IQS5XX_TOTAL_TX :: u16 where "IQS5XX_TOTAL_TX \<equiv> 0x063E"
abbreviation (input) IQS5XX_XY_CFG0 :: u16 where "IQS5XX_XY_CFG0 \<equiv> 0x0669"
abbreviation (input) IQS5XX_X_RES :: u16 where "IQS5XX_X_RES \<equiv> 0x066E"
abbreviation (input) IQS5XX_Y_RES :: u16 where "IQS5XX_Y_RES \<equiv> 0x0670"
abbreviation (input) IQS5XX_CHKSM :: u16 where "IQS5XX_CHKSM \<equiv> 0x83C0"
abbreviation (input) IQS5XX_APP :: u16 where "IQS5XX_APP \<equiv> 0x8400"
abbreviation (input) IQS5XX_CSTM :: u16 where "IQS5XX_CSTM \<equiv> 0xBE00"
abbreviation (input) IQS5XX_PMAP_END :: u16 where "IQS5XX_PMAP_END \<equiv> 0xBFFF"
abbreviation (input) IQS5XX_END_COMM :: u16 where "IQS5XX_END_COMM \<equiv> 0xEEEE"

text \<open>The region lengths: \<^verbatim>\<open>IQS5XX_APP - IQS5XX_CHKSM\<close> and so on, as the macros compute them.\<close>

abbreviation (input) IQS5XX_CHKSM_LEN :: nat where "IQS5XX_CHKSM_LEN \<equiv> 0x8400 - 0x83C0"
abbreviation (input) IQS5XX_APP_LEN :: nat where "IQS5XX_APP_LEN \<equiv> 0xBE00 - 0x8400"
abbreviation (input) IQS5XX_CSTM_LEN :: nat where "IQS5XX_CSTM_LEN \<equiv> 0xBFFF + 1 - 0xBE00"
abbreviation (input) IQS5XX_PMAP_LEN :: nat where "IQS5XX_PMAP_LEN \<equiv> 0xBFFF + 1 - 0x83C0"

abbreviation (input) IQS5XX_REC_HDR_LEN :: nat where "IQS5XX_REC_HDR_LEN \<equiv> 4"
abbreviation (input) IQS5XX_REC_LEN_MAX :: nat where "IQS5XX_REC_LEN_MAX \<equiv> 255"
abbreviation (input) IQS5XX_REC_TYPE_DATA :: u8 where "IQS5XX_REC_TYPE_DATA \<equiv> 0x00"
abbreviation (input) IQS5XX_REC_TYPE_EOF :: u8 where "IQS5XX_REC_TYPE_EOF \<equiv> 0x01"

abbreviation (input) IQS5XX_BL_ADDR_MASK :: u16 where "IQS5XX_BL_ADDR_MASK \<equiv> 0x40"
abbreviation (input) IQS5XX_BL_CMD_VER :: u8 where "IQS5XX_BL_CMD_VER \<equiv> 0x00"
abbreviation (input) IQS5XX_BL_CMD_READ :: u8 where "IQS5XX_BL_CMD_READ \<equiv> 0x01"
abbreviation (input) IQS5XX_BL_CMD_EXEC :: u8 where "IQS5XX_BL_CMD_EXEC \<equiv> 0x02"
abbreviation (input) IQS5XX_BL_CMD_CRC :: u8 where "IQS5XX_BL_CMD_CRC \<equiv> 0x03"
abbreviation (input) IQS5XX_BL_BLK_LEN_MAX :: nat where "IQS5XX_BL_BLK_LEN_MAX \<equiv> 64"
abbreviation (input) IQS5XX_BL_ID :: u16 where "IQS5XX_BL_ID \<equiv> 0x0200"
abbreviation (input) IQS5XX_BL_STATUS_RESET :: u8 where "IQS5XX_BL_STATUS_RESET \<equiv> 0x00"
abbreviation (input) IQS5XX_BL_STATUS_AVAIL :: u8 where "IQS5XX_BL_STATUS_AVAIL \<equiv> 0xA5"
abbreviation (input) IQS5XX_BL_STATUS_NONE :: u8 where "IQS5XX_BL_STATUS_NONE \<equiv> 0xEE"
abbreviation (input) IQS5XX_BL_CRC_PASS :: u8 where "IQS5XX_BL_CRC_PASS \<equiv> 0x00"
abbreviation (input) IQS5XX_BL_ATTEMPTS :: nat where "IQS5XX_BL_ATTEMPTS \<equiv> 3"

text \<open>\<^verbatim>\<open>get_unaligned_be16\<close> and \<^verbatim>\<open>put_unaligned_be16\<close> on two bytes.\<close>

definition get_be16 :: "u8 \<Rightarrow> u8 \<Rightarrow> u16" where
  "get_be16 hi lo = push_bit 8 (ucast hi) OR ucast lo"

definition put_be16 :: "u16 \<Rightarrow> u8 list" where
  "put_be16 v = [ucast (drop_bit 8 v), ucast v]"

subsection \<open>The world outside the driver\<close>

text \<open>
  One I2C message, as the fields of \<^verbatim>\<open>struct i2c_msg\<close> that the driver sets: the target
  address, the \<^verbatim>\<open>I2C_M_RD\<close> flag, the length, and for a write the bytes sent.
\<close>

record i2c_msg =
  msg_addr :: u16
  msg_rd :: bool
  msg_len :: nat
  msg_buf :: "u8 list"

text \<open>
  What the adapter answers to one transfer: the return value of \<^verbatim>\<open>i2c_transfer\<close> or
  \<^verbatim>\<open>i2c_master_send\<close>, and the bytes a read message delivers (byte \<open>i\<close> of the read
  buffer is \<open>x_data i\<close>).
\<close>

record xfer =
  x_ret :: int
  x_data :: "nat \<Rightarrow> u8"

datatype abs_axis = ABS_MT_POSITION_X | ABS_MT_POSITION_Y

datatype event =
    I2cTransfer "i2c_msg list"
  | GpioSetValue bool
  | MutexLock
  | MutexUnlock
  | DisableIrq
  | EnableIrq
  | Kzalloc
  | Kfree
  | RequestFirmware string
  | InputAllocate
  | InputAbsSetMax abs_axis u16
  | InputMtInitSlots
  | InputRegister

text \<open>
  The environment: the client's bus address, the adapter's answer to the \<open>n\<close>-th
  transfer the driver issues, and the outcomes of the calls into the firmware loader,
  the allocator, the platform properties and the input core (\<open>input_users\<close> is the
  \<^verbatim>\<open>users\<close> count of the input device).
\<close>

record env =
  client_addr :: u16
  bus :: "nat \<Rightarrow> xfer"
  fw_load :: "string \<Rightarrow> int \<times> string"
  kzalloc_ok :: bool
  input_alloc_ok :: bool
  prop_max_x :: u32
  prop_max_y :: u32
  prop_invert_x :: bool
  prop_invert_y :: bool
  prop_swap_x_y :: bool
  mt_init_slots_ret :: int
  input_register_ret :: int
  input_users :: nat

text \<open>
  The driver state: \<^verbatim>\<open>struct iqs5xx_private\<close> (the stored bootloader status and whether
  the input device has been allocated), the number of bus transfers issued so far, and
  the log of calls made to the outside.
\<close>

record iqs5xx_private =
  bl_status :: u8
  input :: bool
  tick :: nat
  log :: "event list"

definition emit :: "event \<Rightarrow> iqs5xx_private \<Rightarrow> iqs5xx_private" where
  "emit e s = s\<lparr>log := log s @ [e]\<rparr>"

text \<open>One transfer on the adapter: it is logged, and the adapter's next answer is consumed.\<close>

definition i2c_transfer :: "env \<Rightarrow> i2c_msg list \<Rightarrow> iqs5xx_private \<Rightarrow> xfer \<times> iqs5xx_private" where
  "i2c_transfer E msgs s =
     (bus E (tick s), s\<lparr>tick := Suc (tick s), log := log s @ [I2cTransfer msgs]\<rparr>)"

text \<open>\<^verbatim>\<open>i2c_master_send\<close>: a transfer of a single write message to the client's address.\<close>

definition i2c_master_send :: "env \<Rightarrow> u8 list \<Rightarrow> iqs5xx_private \<Rightarrow> xfer \<times> iqs5xx_private" where
  "i2c_master_send E bytes s =
     i2c_transfer E [\<lparr>msg_addr = client_addr E, msg_rd = False,
                      msg_len = length bytes, msg_buf = bytes\<rparr>] s"

text \<open>The common tail of the failure paths: \<^verbatim>\<open>if (ret >= 0) ret = -EIO;\<close>\<close>

definition msg_fail :: "int \<Rightarrow> int" where
  "msg_fail r = (if r \<ge> 0 then - EIO else r)"

subsection \<open>Bus transport\<close>

text \<open>
  The retry loops of \<^verbatim>\<open>iqs5xx_read_burst\<close> and \<^verbatim>\<open>iqs5xx_write_burst\<close>, with the number
  of transfers left and the return value of the last one. In the source \<^verbatim>\<open>ret\<close> is
  unset before the first transfer; every loop runs at least once, so the 0 the
  loops are started with is never returned.
\<close>

fun read_burst_loop ::
  "env \<Rightarrow> i2c_msg list \<Rightarrow> nat \<Rightarrow> int \<Rightarrow> iqs5xx_private \<Rightarrow> (int \<times> (nat \<Rightarrow> u8)) \<times> iqs5xx_private"
where
  "read_burst_loop E msgs 0 r s = ((msg_fail r, (\<lambda>_. 0)), s)"
| "read_burst_loop E msgs (Suc n) r s =
     (let (x, s1) = i2c_transfer E msgs s
      in if x_ret x = int (length msgs) then ((0, x_data x), s1)
         else read_burst_loop E msgs n (x_ret x) s1)"

text \<open>
  \<^verbatim>\<open>iqs5xx_read_burst\<close>: up to \<^verbatim>\<open>IQS5XX_NUM_RETRIES\<close> transfers of a register-address
  write followed by a read of \<open>len\<close> bytes. The result is the status and the bytes
  read (meaningful only when the status is 0).
\<close>

definition iqs5xx_read_burst ::
  "env \<Rightarrow> u16 \<Rightarrow> nat \<Rightarrow> iqs5xx_private \<Rightarrow> (int \<times> u8 list) \<times> iqs5xx_private"
where
  "iqs5xx_read_burst E reg len s =
     (let msgs = [\<lparr>msg_addr = client_addr E, msg_rd = False, msg_len = 2, msg_buf = put_be16 reg\<rparr>,
                  \<lparr>msg_addr = client_addr E, msg_rd = True, msg_len = len, msg_buf = []\<rparr>];
          ((r, d), s1) = read_burst_loop E msgs IQS5XX_NUM_RETRIES 0 s
      in ((r, map d [0..<len]), s1))"

definition iqs5xx_read_word :: "env \<Rightarrow> u16 \<Rightarrow> iqs5xx_private \<Rightarrow> (int \<times> u16) \<times> iqs5xx_private" where
  "iqs5xx_read_word E reg s =
     (let ((error, b), s1) = iqs5xx_read_burst E reg 2 s
      in if error \<noteq> 0 then ((error, 0), s1) else ((0, get_be16 (b ! 0) (b ! 1)), s1))"

definition iqs5xx_read_byte :: "env \<Rightarrow> u16 \<Rightarrow> iqs5xx_private \<Rightarrow> (int \<times> u8) \<times> iqs5xx_private" where
  "iqs5xx_read_byte E reg s =
     (let ((error, b), s1) = iqs5xx_read_burst E reg 1 s in ((error, b ! 0), s1))"

fun write_burst_loop :: "env \<Rightarrow> u8 list \<Rightarrow> nat \<Rightarrow> int \<Rightarrow> iqs5xx_private \<Rightarrow> int \<times> iqs5xx_private" where
  "write_burst_loop E mbuf 0 r s = (msg_fail r, s)"
| "write_burst_loop E mbuf (Suc n) r s =
     (let (x, s1) = i2c_master_send E mbuf s
      in if x_ret x = int (length mbuf) then (0, s1)
         else write_burst_loop E mbuf n (x_ret x) s1)"

definition iqs5xx_write_burst :: "env \<Rightarrow> u16 \<Rightarrow> u8 list \<Rightarrow> iqs5xx_private \<Rightarrow> int \<times> iqs5xx_private" where
  "iqs5xx_write_burst E reg val s =
     (if length val > IQS5XX_WR_BYTES_MAX then (- EINVAL, s)
      else write_burst_loop E (put_be16 reg @ val) IQS5XX_NUM_RETRIES 0 s)"

definition iqs5xx_write_word :: "env \<Rightarrow> u16 \<Rightarrow> u16 \<Rightarrow> iqs5xx_private \<Rightarrow> int \<times> iqs5xx_private" where
  "iqs5xx_write_word E reg val s = iqs5xx_write_burst E reg (put_be16 val) s"

definition iqs5xx_write_byte :: "env \<Rightarrow> u16 \<Rightarrow> u8 \<Rightarrow> iqs5xx_private \<Rightarrow> int \<times> iqs5xx_private" where
  "iqs5xx_write_byte E reg val s = iqs5xx_write_burst E reg [val] s"

definition iqs5xx_reset :: "iqs5xx_private \<Rightarrow> iqs5xx_private" where
  "iqs5xx_reset s = emit (GpioSetValue False) (emit (GpioSetValue True) s)"

subsection \<open>Bootloader protocol\<close>

abbreviation (input) bl_msg :: "env \<Rightarrow> bool \<Rightarrow> nat \<Rightarrow> u8 list \<Rightarrow> i2c_msg" where
  "bl_msg E rd n bytes \<equiv>
     \<lparr>msg_addr = client_addr E XOR IQS5XX_BL_ADDR_MASK, msg_rd = rd, msg_len = n, msg_buf = bytes\<rparr>"

text \<open>
  \<^verbatim>\<open>iqs5xx_bl_cmd\<close>: the opcode (followed by the address for a read command) is written
  to the bootloader address; the version and CRC commands then read the answer back
  and compare it with the expected bootloader ID and the CRC pass byte.
\<close>

definition iqs5xx_bl_cmd :: "env \<Rightarrow> u8 \<Rightarrow> u16 \<Rightarrow> iqs5xx_private \<Rightarrow> int \<times> iqs5xx_private" where
  "iqs5xx_bl_cmd E bl_cmd bl_addr s =
     (if bl_cmd \<noteq> IQS5XX_BL_CMD_VER \<and> bl_cmd \<noteq> IQS5XX_BL_CMD_CRC \<and>
         bl_cmd \<noteq> IQS5XX_BL_CMD_EXEC \<and> bl_cmd \<noteq> IQS5XX_BL_CMD_READ
      then (- EINVAL, s)
      else
        let mbuf = (if bl_cmd = IQS5XX_BL_CMD_READ then bl_cmd # put_be16 bl_addr else [bl_cmd]);
            (x, s1) = i2c_transfer E [bl_msg E False (length mbuf) mbuf] s
        in if x_ret x \<noteq> 1 then (msg_fail (x_ret x), s1)
           else if bl_cmd = IQS5XX_BL_CMD_EXEC \<or> bl_cmd = IQS5XX_BL_CMD_READ then (0, s1)
           else
             let n = (if bl_cmd = IQS5XX_BL_CMD_VER then 2 else 1);
                 (y, s2) = i2c_transfer E [bl_msg E True n []] s1
             in if x_ret y \<noteq> 1 then (msg_fail (x_ret y), s2)
                else if bl_cmd = IQS5XX_BL_CMD_VER \<and>
                        get_be16 (x_data y 0) (x_data y 1) \<noteq> IQS5XX_BL_ID
                     then (- EINVAL, s2)
                else if bl_cmd = IQS5XX_BL_CMD_CRC \<and> x_data y 0 \<noteq> IQS5XX_BL_CRC_PASS
                     then (- EIO, s2)
                else (0, s2))"

text \<open>
  The inner loop of \<^verbatim>\<open>iqs5xx_bl_open\<close>: up to \<open>j\<close> version probes. The flag of the
  result says whether the loop left the function by its \<^verbatim>\<open>return error\<close>.
\<close>

fun bl_open_probes :: "env \<Rightarrow> nat \<Rightarrow> int \<Rightarrow> iqs5xx_private \<Rightarrow> (int \<times> bool) \<times> iqs5xx_private" where
  "bl_open_probes E 0 err s = ((err, False), s)"
| "bl_open_probes E (Suc j) err s =
     (let (error, s1) = iqs5xx_bl_cmd E IQS5XX_BL_CMD_VER 0 s
      in if error = 0 \<or> error = - EINVAL then ((error, True), s1)
         else bl_open_probes E j error s1)"

text \<open>The outer loop: each attempt pulses reset and then probes.\<close>

fun bl_open_attempts :: "env \<Rightarrow> nat \<Rightarrow> int \<Rightarrow> iqs5xx_private \<Rightarrow> int \<times> iqs5xx_private" where
  "bl_open_attempts E 0 err s = (err, s)"
| "bl_open_attempts E (Suc i) err s =
     (let ((error, returned), s1) = bl_open_probes E IQS5XX_NUM_RETRIES err (iqs5xx_reset s)
      in if returned then (error, s1) else bl_open_attempts E i error s1)"

text \<open>\<^verbatim>\<open>iqs5xx_bl_open\<close>: three attempts; \<^verbatim>\<open>error\<close> is unset before the first probe.\<close>

definition iqs5xx_bl_open :: "env \<Rightarrow> iqs5xx_private \<Rightarrow> int \<times> iqs5xx_private" where
  "iqs5xx_bl_open E s = bl_open_attempts E IQS5XX_BL_ATTEMPTS 0 s"

text \<open>
  \<^verbatim>\<open>iqs5xx_bl_write\<close>. The image is the memory at \<^verbatim>\<open>pmap_data\<close>: byte \<open>i\<close> of it is
  \<open>pmap_data i\<close>. The block address \<^verbatim>\<open>bl_addr + i\<close> is truncated to 16 bits by
  \<^verbatim>\<open>put_unaligned_be16\<close>.
\<close>

function bl_write_loop ::
  "env \<Rightarrow> u16 \<Rightarrow> (nat \<Rightarrow> u8) \<Rightarrow> nat \<Rightarrow> nat \<Rightarrow> iqs5xx_private \<Rightarrow> int \<times> iqs5xx_private"
where
  "bl_write_loop E bl_addr pmap_data pmap_len i s =
     (if i < pmap_len then
        let mbuf = put_be16 (bl_addr + of_nat i) @ map pmap_data [i..<i + IQS5XX_BL_BLK_LEN_MAX];
            (x, s1) = i2c_transfer E [bl_msg E False (2 + IQS5XX_BL_BLK_LEN_MAX) mbuf] s
        in if x_ret x \<noteq> 1 then (msg_fail (x_ret x), s1)
           else bl_write_loop E bl_addr pmap_data pmap_len (i + IQS5XX_BL_BLK_LEN_MAX) s1
      else (0, s))"
  by pat_completeness auto
termination
  by (relation "measure (\<lambda>(E, bl_addr, pmap_data, pmap_len, i, s). pmap_len - i)") auto

declare bl_write_loop.simps [simp del]

definition iqs5xx_bl_write ::
  "env \<Rightarrow> u16 \<Rightarrow> (nat \<Rightarrow> u8) \<Rightarrow> u16 \<Rightarrow> iqs5xx_private \<Rightarrow> int \<times> iqs5xx_private"
where
  "iqs5xx_bl_write E bl_addr pmap_data pmap_len s =
     (if unat pmap_len mod IQS5XX_BL_BLK_LEN_MAX \<noteq> 0 then (- EINVAL, s)
      else bl_write_loop E bl_addr pmap_data (unat pmap_len) 0 s)"

text \<open>\<^verbatim>\<open>iqs5xx_bl_verify\<close>: each block is read back and compared with the image.\<close>

function bl_verify_loop ::
  "env \<Rightarrow> u16 \<Rightarrow> (nat \<Rightarrow> u8) \<Rightarrow> nat \<Rightarrow> nat \<Rightarrow> iqs5xx_private \<Rightarrow> int \<times> iqs5xx_private"
where
  "bl_verify_loop E bl_addr pmap_data pmap_len i s =
     (if i < pmap_len then
        let (ret, s1) = iqs5xx_bl_cmd E IQS5XX_BL_CMD_READ (bl_addr + of_nat i) s
        in if ret \<noteq> 0 then (ret, s1)
           else
             let (x, s2) = i2c_transfer E [bl_msg E True IQS5XX_BL_BLK_LEN_MAX []] s1
             in if x_ret x \<noteq> 1 then (msg_fail (x_ret x), s2)
                else if map (x_data x) [0..<IQS5XX_BL_BLK_LEN_MAX]
                        \<noteq> map pmap_data [i..<i + IQS5XX_BL_BLK_LEN_MAX]
                     then (- EIO, s2)
                else bl_verify_loop E bl_addr pmap_data pmap_len (i + IQS5XX_BL_BLK_LEN_MAX) s2
      else (0, s))"
  by pat_completeness auto
termination
  by (relation "measure (\<lambda>(E, bl_addr, pmap_data, pmap_len, i, s). pmap_len - i)") auto

declare bl_verify_loop.simps [simp del]

definition iqs5xx_bl_verify ::
  "env \<Rightarrow> u16 \<Rightarrow> (nat \<Rightarrow> u8) \<Rightarrow> u16 \<Rightarrow> iqs5xx_private \<Rightarrow> int \<times> iqs5xx_private"
where
  "iqs5xx_bl_verify E bl_addr pmap_data pmap_len s =
     (if unat pmap_len mod IQS5XX_BL_BLK_LEN_MAX \<noteq> 0 then (- EINVAL, s)
      else bl_verify_loop E bl_addr pmap_data (unat pmap_len) 0 s)"

subsection \<open>Power state\<close>

definition iqs5xx_set_state :: "env \<Rightarrow> u8 \<Rightarrow> iqs5xx_private \<Rightarrow> int \<times> iqs5xx_private" where
  "iqs5xx_set_state E state s =
     (if bl_status s = IQS5XX_BL_STATUS_RESET then (0, s)
      else
        let s1 = emit DisableIrq (emit MutexLock s);
            (error1, s2) = iqs5xx_write_byte E IQS5XX_SYS_CTRL1 state s1;
            (error2, s3) = iqs5xx_write_byte E IQS5XX_END_COMM 0 s2;
            s4 = emit MutexUnlock (emit EnableIrq s3)
        in if error1 \<noteq> 0 then (error1, s4) else (error2, s4))"

text \<open>\<^verbatim>\<open>iqs5xx_open\<close> and \<^verbatim>\<open>iqs5xx_close\<close>, the callbacks of the input device.\<close>

definition iqs5xx_open :: "env \<Rightarrow> iqs5xx_private \<Rightarrow> int \<times> iqs5xx_private" where
  "iqs5xx_open E s = iqs5xx_set_state E IQS5XX_RESUME s"

definition iqs5xx_close :: "env \<Rightarrow> iqs5xx_private \<Rightarrow> iqs5xx_private" where
  "iqs5xx_close E s = snd (iqs5xx_set_state E IQS5XX_SUSPEND s)"

subsection \<open>Device bring-up\<close>

text \<open>
  \<^verbatim>\<open>iqs5xx_axis_init\<close>. The values \<^verbatim>\<open>touchscreen_parse_properties\<close> delivers are the
  \<open>prop_\<close> fields of the environment.
\<close>

definition axis_max ::
  "env \<Rightarrow> u32 \<Rightarrow> u16 \<Rightarrow> u16 \<Rightarrow> abs_axis \<Rightarrow> iqs5xx_private \<Rightarrow> (int \<times> u16) \<times> iqs5xx_private"
where
  "axis_max E prop_max max_hw res_reg axis s =
     (if unat prop_max > unat max_hw then ((- EINVAL, 0), s)
      else if prop_max = 0 then
        let ((error, m), s1) = iqs5xx_read_word E res_reg s
        in if error \<noteq> 0 then ((error, 0), s1)
           else ((0, m), emit (InputAbsSetMax axis m) s1)
      else ((0, ucast prop_max), s))"

definition iqs5xx_axis_init :: "env \<Rightarrow> iqs5xx_private \<Rightarrow> int \<times> iqs5xx_private" where
  "iqs5xx_axis_init E s =
     (if \<not> input s \<and> \<not> input_alloc_ok E then (- ENOMEM, emit InputAllocate s)
      else
        let s0 = (if \<not> input s then (emit InputAllocate s)\<lparr>input := True\<rparr> else s);
            ((error, val), s1) = iqs5xx_read_byte E IQS5XX_TOTAL_RX s0
        in if error \<noteq> 0 then (error, s1)
        else
        let max_x_hw = (ucast val - 1) * 256 :: u16;
            ((error, val), s2) = iqs5xx_read_byte E IQS5XX_TOTAL_TX s1
        in if error \<noteq> 0 then (error, s2)
        else
        let max_y_hw = (ucast val - 1) * 256 :: u16;
            ((error, val), s3) = iqs5xx_read_byte E IQS5XX_XY_CFG0 s2
        in if error \<noteq> 0 then (error, s3)
        else
        let swapped = (val AND 0x04 \<noteq> 0);
            max_x_hw' = (if swapped then max_y_hw else max_x_hw);
            max_y_hw' = (if swapped then max_x_hw else max_y_hw);
            val = (if prop_swap_x_y E then val XOR 0x04 else val);
            val = (if prop_invert_x E
                   then val XOR (if prop_swap_x_y E then 0x02 else 0x01) else val);
            val = (if prop_invert_y E
                   then val XOR (if prop_swap_x_y E then 0x01 else 0x02) else val);
            (error, s4) = iqs5xx_write_byte E IQS5XX_XY_CFG0 val s3
        in if error \<noteq> 0 then (error, s4)
        else
        let ((error, max_x), s5) =
              axis_max E (prop_max_x E) max_x_hw' IQS5XX_X_RES
                (if prop_swap_x_y E then ABS_MT_POSITION_Y else ABS_MT_POSITION_X) s4
        in if error \<noteq> 0 then (error, s5)
        else
        let ((error, max_y), s6) =
              axis_max E (prop_max_y E) max_y_hw' IQS5XX_Y_RES
                (if prop_swap_x_y E then ABS_MT_POSITION_X else ABS_MT_POSITION_Y) s5
        in if error \<noteq> 0 then (error, s6)
        else
        let (error, s7) =
              iqs5xx_write_word E (if prop_swap_x_y E then IQS5XX_Y_RES else IQS5XX_X_RES) max_x s6
        in if error \<noteq> 0 then (error, s7)
        else
        let (error, s8) =
              iqs5xx_write_word E (if prop_swap_x_y E then IQS5XX_X_RES else IQS5XX_Y_RES) max_y s7
        in if error \<noteq> 0 then (error, s8)
        else (mt_init_slots_ret E, emit InputMtInitSlots s8))"

text \<open>
  The part of \<^verbatim>\<open>iqs5xx_dev_init\<close> after the identity checks: axis setup, the
  configuration registers, and the store of the reported bootloader status.
\<close>

definition dev_init_setup :: "env \<Rightarrow> u8 \<Rightarrow> iqs5xx_private \<Rightarrow> int \<times> iqs5xx_private" where
  "dev_init_setup E id_bl_status s =
     (let (error, s1) = iqs5xx_axis_init E s
      in if error \<noteq> 0 then (error, s1)
      else
      let ((error, val), s2) = iqs5xx_read_byte E IQS5XX_SYS_CFG0 s1
      in if error \<noteq> 0 then (error, s2)
      else
      let val = (val OR 0x40) AND NOT 0x10;
          (error, s3) = iqs5xx_write_byte E IQS5XX_SYS_CFG0 val s2
      in if error \<noteq> 0 then (error, s3)
      else
      let (error, s4) = iqs5xx_write_byte E IQS5XX_SYS_CFG1 (0x04 OR 0x01) s3
      in if error \<noteq> 0 then (error, s4)
      else
      let (error, s5) = iqs5xx_write_byte E IQS5XX_END_COMM 0 s4
      in if error \<noteq> 0 then (error, s5)
      else (0, s5\<lparr>bl_status := id_bl_status\<rparr>))"

text \<open>
  \<^verbatim>\<open>iqs5xx_dev_init\<close>. The seven identity bytes are read into \<^verbatim>\<open>buf[1..7]\<close>, with
  \<^verbatim>\<open>buf[0] = 0\<close>; the identity structure starts at \<^verbatim>\<open>buf[0]\<close> when \<^verbatim>\<open>buf[1]\<close> is
  nonzero and at \<^verbatim>\<open>buf[1]\<close> otherwise.
\<close>

definition iqs5xx_dev_init :: "env \<Rightarrow> iqs5xx_private \<Rightarrow> int \<times> iqs5xx_private" where
  "iqs5xx_dev_init E s =
     (let ((error, b), s1) = iqs5xx_read_burst E IQS5XX_PROD_NUM 7 s
      in if error \<noteq> 0 then iqs5xx_bl_open E s1
      else
      let buf = 0 # b;
          id = (if buf ! 1 > 0 then buf else drop 1 buf);
          prod_num = get_be16 (id ! 0) (id ! 1);
          proj_num = get_be16 (id ! 2) (id ! 3);
          major_ver = id ! 4;
          id_bl_status = id ! 6
      in if prod_num \<noteq> 40 \<and> prod_num \<noteq> 58 \<and> prod_num \<noteq> 52 then (- EINVAL, s1)
         else if proj_num = 0 then iqs5xx_bl_open E s1
         else if proj_num \<noteq> 15 then (- EINVAL, s1)
         else if major_ver < 2 then iqs5xx_bl_open E s1
         else if id_bl_status \<noteq> IQS5XX_BL_STATUS_AVAIL \<and> id_bl_status \<noteq> IQS5XX_BL_STATUS_NONE
              then (- EINVAL, s1)
         else dev_init_setup E id_bl_status s1)"

subsection \<open>Firmware image parser\<close>

text \<open>
  Modelled from the spec: \<^verbatim>\<open>hex_to_bin\<close> and \<^verbatim>\<open>hex2bin\<close>, which the parser calls,
  belong to the kernel library (\<^verbatim>\<open>lib/hexdump.c\<close>) and are not among the sources. The
  spec has the header, the payload and the checksum decoded from their hexadecimal
  text encoding, and a malformed one fail the parse: a hexadecimal digit of either case
  gives its value, any other character gives \<open>-1\<close>; \<^verbatim>\<open>hex2bin\<close> decodes \<open>count\<close>
  bytes from \<open>2 * count\<close> characters and fails (\<open>None\<close>, the status \<^verbatim>\<open>-EINVAL\<close>) at
  the first character that is no digit. The parser's size tests keep every call inside
  the file, so the last equation (a source with fewer characters) is never reached.
\<close>

definition hex_to_bin :: "char \<Rightarrow> int" where
  "hex_to_bin ch =
     (let c = (of_char ch :: nat)
      in if 48 \<le> c \<and> c \<le> 57 then int c - 48
         else if 97 \<le> c \<and> c \<le> 102 then int c - 97 + 10
         else if 65 \<le> c \<and> c \<le> 70 then int c - 65 + 10
         else - 1)"

fun hex2bin :: "string \<Rightarrow> nat \<Rightarrow> u8 list option" where
  "hex2bin src 0 = Some []"
| "hex2bin (hi # lo # src) (Suc n) =
     (if hex_to_bin hi < 0 \<or> hex_to_bin lo < 0 then None
      else map_option ((#) (word_of_int (hex_to_bin hi * 16 + hex_to_bin lo))) (hex2bin src n))"
| "hex2bin src (Suc n) = None"

text \<open>
  \<^verbatim>\<open>memcpy\<close> into the memory at \<^verbatim>\<open>pmap\<close>. The memory is a function of the offset from
  \<^verbatim>\<open>pmap\<close>; the buffer the driver allocated is the offsets below \<^verbatim>\<open>IQS5XX_PMAP_LEN\<close>,
  and a store at a larger offset lands outside it.
\<close>

definition memcpy :: "(nat \<Rightarrow> u8) \<Rightarrow> nat \<Rightarrow> u8 list \<Rightarrow> nat \<Rightarrow> (nat \<Rightarrow> u8)" where
  "memcpy mem dst src n = (\<lambda>a. if dst \<le> a \<and> a < dst + n then src ! (a - dst) else mem a)"

text \<open>
  The first half of the loop body of \<^verbatim>\<open>iqs5xx_fw_file_parse\<close>: the record at \<open>pos\<close>
  is decoded into its header bytes, its payload and its recorded checksum, and \<open>pos\<close>
  moves past it. A record occupies \<^verbatim>\<open>sizeof(struct iqs5xx_ihex_rec)\<close> = 11 characters
  plus two per payload byte.
\<close>

definition ihex_rec_decode :: "string \<Rightarrow> nat \<Rightarrow> int + (u8 list \<times> u8 list \<times> u8 \<times> nat)" where
  "ihex_rec_decode fw pos =
     (if pos + 11 > length fw then Inl (- EINVAL)
      else if fw ! pos \<noteq> CHR '':'' then Inl (- EINVAL)
      else (case hex2bin (drop (pos + 1) fw) IQS5XX_REC_HDR_LEN of
        None \<Rightarrow> Inl (- EINVAL)
      | Some rec_hdr \<Rightarrow>
          (let rec_len = unat (rec_hdr ! 0); pos1 = pos + 11
           in if pos1 + rec_len * 2 > length fw then Inl (- EINVAL)
              else (case hex2bin (drop (pos + 9) fw) rec_len of
                None \<Rightarrow> Inl (- EINVAL)
              | Some rec_data \<Rightarrow>
                  (case hex2bin (drop (pos + 9 + rec_len * 2) fw) 1 of
                     None \<Rightarrow> Inl (- EINVAL)
                   | Some c \<Rightarrow> Inr (rec_hdr, rec_data, c ! 0, pos1 + rec_len * 2))))))"

definition rec_addr_of :: "u8 list \<Rightarrow> u16" where
  "rec_addr_of rec_hdr = get_be16 (rec_hdr ! 1) (rec_hdr ! 2)"

definition rec_type_of :: "u8 list \<Rightarrow> u8" where
  "rec_type_of rec_hdr = rec_hdr ! 3"

text \<open>The checksum the parser recomputes: \<^verbatim>\<open>~chksm + 1\<close> of the byte sum.\<close>

definition rec_chksm_calc :: "u8 list \<Rightarrow> u8 list \<Rightarrow> u8" where
  "rec_chksm_calc rec_hdr rec_data = NOT (sum_list rec_hdr + sum_list rec_data) + 1"

text \<open>The \<^verbatim>\<open>switch (rec_type)\<close>: a data record is copied into the image.\<close>

definition ihex_rec_store :: "u8 list \<Rightarrow> u8 list \<Rightarrow> (nat \<Rightarrow> u8) \<Rightarrow> int + (nat \<Rightarrow> u8)" where
  "ihex_rec_store rec_hdr rec_data pmap =
     (if rec_type_of rec_hdr = IQS5XX_REC_TYPE_DATA then
        if rec_addr_of rec_hdr < IQS5XX_CHKSM \<or> rec_addr_of rec_hdr > IQS5XX_PMAP_END
        then Inl (- EINVAL)
        else Inr (memcpy pmap (unat (rec_addr_of rec_hdr) - unat IQS5XX_CHKSM)
                    rec_data (unat (rec_hdr ! 0)))
      else if rec_type_of rec_hdr = IQS5XX_REC_TYPE_EOF then Inr pmap
      else Inl (- EINVAL))"

text \<open>The second half of the loop body: the checksum test, then the switch.\<close>

definition ihex_rec_check :: "u8 list \<Rightarrow> u8 list \<Rightarrow> u8 \<Rightarrow> (nat \<Rightarrow> u8) \<Rightarrow> int + (nat \<Rightarrow> u8)" where
  "ihex_rec_check rec_hdr rec_data rec_chksm pmap =
     (if rec_chksm_calc rec_hdr rec_data \<noteq> rec_chksm \<and> rec_addr_of rec_hdr < IQS5XX_CSTM
      then Inl (- EINVAL)
      else ihex_rec_store rec_hdr rec_data pmap)"

text \<open>The scan to the next start marker after a record.\<close>

function skip_to_start :: "string \<Rightarrow> nat \<Rightarrow> nat" where
  "skip_to_start fw pos =
     (if pos < length fw then (if fw ! pos = CHR '':'' then pos else skip_to_start fw (Suc pos))
      else pos)"
  by pat_completeness auto
termination
  by (relation "measure (\<lambda>(fw, pos). length fw - pos)") auto

declare skip_to_start.simps [simp del]

text \<open>
  The \<^verbatim>\<open>do ... while (rec_type != IQS5XX_REC_TYPE_EOF)\<close> loop. A failing record ends
  the loop with its status; the image keeps what earlier records stored.
\<close>

function parse_loop :: "string \<Rightarrow> nat \<Rightarrow> (nat \<Rightarrow> u8) \<Rightarrow> int \<times> (nat \<Rightarrow> u8)" where
  "parse_loop fw pos pmap =
     (case ihex_rec_decode fw pos of
        Inl error \<Rightarrow> (error, pmap)
      | Inr (rec_hdr, rec_data, rec_chksm, pos') \<Rightarrow>
          (case ihex_rec_check rec_hdr rec_data rec_chksm pmap of
             Inl error \<Rightarrow> (error, pmap)
           | Inr pmap' \<Rightarrow>
               if rec_type_of rec_hdr \<noteq> IQS5XX_REC_TYPE_EOF
               then parse_loop fw (skip_to_start fw pos') pmap'
               else (0, pmap')))"
  by pat_completeness auto
termination
proof (relation "measure (\<lambda>(fw, pos, pmap). length fw - pos)")
  show "wf (measure (\<lambda>(fw, pos, pmap). length fw - pos))"
    by simp
next
  fix fw :: string and pos :: nat and pmap :: "nat \<Rightarrow> u8"
    and x :: "u8 list \<times> u8 list \<times> u8 \<times> nat"
    and rec_hdr y rec_data z rec_chksm pos' pmap'
  assume dec: "ihex_rec_decode fw pos = Inr x"
    and x: "(rec_hdr, y) = x" "(rec_data, z) = y" "(rec_chksm, pos') = z"
  have ge: "p \<le> skip_to_start fw p" for p
  proof (induction fw p rule: skip_to_start.induct)
    case (1 fw pos)
    then show ?case
      by (subst skip_to_start.simps) auto
  qed
  from dec x have "pos < pos' \<and> pos < length fw"
    unfolding ihex_rec_decode_def Let_def
    by (auto split: if_splits option.splits)
  then have "pos < pos'" and "pos < length fw"
    by simp_all
  with ge [of pos']
  show "((fw, skip_to_start fw pos', pmap'), (fw, pos, pmap))
          \<in> measure (\<lambda>(fw, pos, pmap). length fw - pos)"
    by simp
qed

declare parse_loop.simps [simp del]

text \<open>
  \<^verbatim>\<open>iqs5xx_fw_file_parse\<close>. The firmware loader's answer for the file name is the
  environment's \<open>fw_load\<close>: its status and, when that is 0, the file's contents.
\<close>

definition iqs5xx_fw_file_parse ::
  "env \<Rightarrow> string \<Rightarrow> (nat \<Rightarrow> u8) \<Rightarrow> iqs5xx_private \<Rightarrow> (int \<times> (nat \<Rightarrow> u8)) \<times> iqs5xx_private"
where
  "iqs5xx_fw_file_parse E fw_file pmap s =
     (let s1 = emit (RequestFirmware fw_file) s;
          (error, fw) = fw_load E fw_file
      in if error \<noteq> 0 then ((error, pmap), s1)
         else (parse_loop fw 0 pmap, s1))"

subsection \<open>Flash programmer\<close>

text \<open>
  The straight-line part of \<^verbatim>\<open>iqs5xx_fw_file_write\<close> between the store of
  \<^verbatim>\<open>IQS5XX_BL_STATUS_RESET\<close> and the label \<^verbatim>\<open>err_reset\<close>: each failing step jumps to
  the label with its status.
\<close>

definition fw_flash_steps :: "env \<Rightarrow> (nat \<Rightarrow> u8) \<Rightarrow> iqs5xx_private \<Rightarrow> int \<times> iqs5xx_private" where
  "fw_flash_steps E pmap s =
     (let (error, s1) = iqs5xx_bl_cmd E IQS5XX_BL_CMD_VER 0 s;
          (error, s1) = (if error \<noteq> 0 then iqs5xx_bl_open E s1 else (error, s1))
      in if error \<noteq> 0 then (error, s1)
      else
      let (error, s2) = iqs5xx_bl_write E IQS5XX_CHKSM pmap (of_nat IQS5XX_PMAP_LEN) s1
      in if error \<noteq> 0 then (error, s2)
      else
      let (error, s3) = iqs5xx_bl_cmd E IQS5XX_BL_CMD_CRC 0 s2
      in if error \<noteq> 0 then (error, s3)
      else
      let (error, s4) = iqs5xx_bl_verify E IQS5XX_CSTM
                          (\<lambda>i. pmap (IQS5XX_CHKSM_LEN + IQS5XX_APP_LEN + i))
                          (of_nat IQS5XX_CSTM_LEN) s3
      in if error \<noteq> 0 then (error, s4)
      else iqs5xx_bl_cmd E IQS5XX_BL_CMD_EXEC 0 s4)"

text \<open>The buffer \<^verbatim>\<open>kzalloc\<close> returns: all bytes are 0.\<close>

definition kzalloc_image :: "nat \<Rightarrow> u8" where
  "kzalloc_image a = 0"

text \<open>
  From \<^verbatim>\<open>err_reset\<close> to the unlock: a reset pulse when a step failed, then
  \<^verbatim>\<open>iqs5xx_dev_init\<close>, whose status replaces the one of the steps.
\<close>

definition fw_flash_resync :: "env \<Rightarrow> int \<Rightarrow> iqs5xx_private \<Rightarrow> int \<times> iqs5xx_private" where
  "fw_flash_resync E step_error s =
     (let s1 = (if step_error \<noteq> 0 then iqs5xx_reset s else s);
          (error, s2) = iqs5xx_dev_init E s1;
          error = (if error = 0 \<and> bl_status s2 = IQS5XX_BL_STATUS_RESET then - EINVAL else error)
      in (error, emit MutexUnlock (emit EnableIrq s2)))"

definition iqs5xx_fw_file_write :: "env \<Rightarrow> string \<Rightarrow> iqs5xx_private \<Rightarrow> int \<times> iqs5xx_private" where
  "iqs5xx_fw_file_write E fw_file s =
     (if bl_status s = IQS5XX_BL_STATUS_NONE then (- EPERM, s)
      else if \<not> kzalloc_ok E then (- ENOMEM, emit Kzalloc s)
      else
        let ((error, pmap), s1) = iqs5xx_fw_file_parse E fw_file kzalloc_image (emit Kzalloc s)
        in if error \<noteq> 0 then (error, emit Kfree s1)
        else
        let s2 = (emit DisableIrq (emit MutexLock s1))\<lparr>bl_status := IQS5XX_BL_STATUS_RESET\<rparr>;
            (step_error, s3) = fw_flash_steps E pmap s2;
            (error, s4) = fw_flash_resync E step_error s3
        in (error, emit Kfree s4))"

subsection \<open>The firmware-file control\<close>

text \<open>
  \<^verbatim>\<open>fw_file_store\<close>. \<open>buf\<close> holds the \<open>count\<close> bytes written to the control. The name
  handed on is a C string (\<open>c_string\<close>), so it ends at the first NUL byte of the copy.
\<close>

definition c_string :: "string \<Rightarrow> string" where
  "c_string bytes = takeWhile (\<lambda>c. c \<noteq> CHR 0x00) bytes"

text \<open>The end of \<^verbatim>\<open>fw_file_store\<close>, after the call of \<^verbatim>\<open>iqs5xx_fw_file_write\<close>.\<close>

definition fw_file_register ::
  "env \<Rightarrow> nat \<Rightarrow> bool \<Rightarrow> int \<times> iqs5xx_private \<Rightarrow> int \<times> iqs5xx_private"
where
  "fw_file_register E count input_reg r =
     (let (error, s1) = r
      in if error \<noteq> 0 then (error, s1)
         else if input_reg then
           (if input_register_ret E \<noteq> 0 then (input_register_ret E, emit InputRegister s1)
            else (int count, emit InputRegister s1))
         else (int count, s1))"

definition fw_file_store :: "env \<Rightarrow> string \<Rightarrow> iqs5xx_private \<Rightarrow> int \<times> iqs5xx_private" where
  "fw_file_store E buf s =
     (let count = length buf; len = count
      in if len = 0 then (- EINVAL, s)
      else
      let len = (if buf ! (len - 1) = CHR 0x0A then len - 1 else len)
      in if len > IQS5XX_FW_FILE_LEN then (- ENAMETOOLONG, s)
      else
      let input_reg = (\<not> input s);
          fw_file = c_string (take len buf)
      in fw_file_register E count input_reg (iqs5xx_fw_file_write E fw_file s))"

subsection \<open>Power management\<close>

text \<open>\<^verbatim>\<open>iqs5xx_suspend\<close> and \<^verbatim>\<open>iqs5xx_resume\<close>.\<close>

definition iqs5xx_suspend :: "env \<Rightarrow> iqs5xx_private \<Rightarrow> int \<times> iqs5xx_private" where
  "iqs5xx_suspend E s =
     (if \<not> input s then (0, s)
      else if input_users E \<noteq> 0 then iqs5xx_set_state E IQS5XX_SUSPEND s
      else (0, s))"

definition iqs5xx_resume :: "env \<Rightarrow> iqs5xx_private \<Rightarrow> int \<times> iqs5xx_private" where
  "iqs5xx_resume E s =
     (if \<not> input s then (0, s)
      else if input_users E \<noteq> 0 then iqs5xx_set_state E IQS5XX_RESUME s
      else (0, s))"

subsection \<open>Sample environments\<close>

text \<open>
  Concrete adapters, environments and states on which the theorems below are
  instantiated. \<open>no_device\<close> is a bus on which nothing acknowledges
  (\<^verbatim>\<open>-ENXIO\<close> for every transfer).
\<close>

definition no_device :: "nat \<Rightarrow> xfer" where
  "no_device n = \<lparr>x_ret = - 6, x_data = (\<lambda>_. 0)\<rparr>"

definition sample_env :: "(nat \<Rightarrow> xfer) \<Rightarrow> string \<Rightarrow> env" where
  "sample_env b fw =
     \<lparr>client_addr = 0x74, bus = b, fw_load = (\<lambda>name. (0, fw)),
      kzalloc_ok = True, input_alloc_ok = True,
      prop_max_x = 0, prop_max_y = 0,
      prop_invert_x = False, prop_invert_y = False, prop_swap_x_y = False,
      mt_init_slots_ret = 0, input_register_ret = 0, input_users = 1\<rparr>"

definition sample_state :: "u8 \<Rightarrow> iqs5xx_private" where
  "sample_state st = \<lparr>bl_status = st, input = True, tick = 0, log = []\<rparr>"

text \<open>
  Sample firmware files. Each has a record whose recorded checksum is 0 and wrong: a
  data record in the user-customization region followed by an end-of-file record, a
  data record at the base of the image, and an end-of-file record at the address
  \<^verbatim>\<open>0xFFFF\<close> that the vendor's tool writes.
\<close>

definition fw_bad_cstm :: string where
  "fw_bad_cstm = '':01BE0000AA00'' @ [CHR 0x0A] @ '':00000001FF''"

definition fw_bad_chksm :: string where
  "fw_bad_chksm = '':0183C000AA00''"

definition fw_bad_eof :: string where
  "fw_bad_eof = '':00FFFF0100''"





text \<open>
  More sample files: an end-of-file record alone (which leaves the image all zero), and
  a two-byte data record at \<^verbatim>\<open>0xBFFF\<close>, the last address of the image, followed by
  an end-of-file record.
\<close>

definition fw_eof :: string where
  "fw_eof = '':00000001FF''"

definition fw_past_end :: string where
  "fw_past_end = '':02BFFF00AABBDB'' @ [CHR 0x0A] @ '':00000001FF''"

text \<open>
  \<open>stale_device\<close> stays in its normal firmware: it answers none of the 31 version
  probes at the bootloader address (the first one and the 30 of the open sequence),
  and then answers the identification and configuration transfers of
  \<^verbatim>\<open>iqs5xx_dev_init\<close> as an IQS550 (product 40, project 15, version 2.0, bootloader
  available) does. Register reads deliver \<^verbatim>\<open>0x0A\<close> in every byte; the writes of one
  and two bytes are acknowledged with their lengths 3 and 4.
\<close>

definition id_bytes :: "nat \<Rightarrow> u8" where
  "id_bytes i = [0x00, 0x28, 0x00, 0x0F, 0x02, 0x00, 0xA5] ! i"

definition stale_device :: "nat \<Rightarrow> xfer" where
  "stale_device n =
     (if n < 31 then \<lparr>x_ret = - 6, x_data = (\<lambda>_. 0)\<rparr>
      else if n = 31 then \<lparr>x_ret = 2, x_data = id_bytes\<rparr>
      else if n = 35 \<or> n = 41 \<or> n = 42 \<or> n = 43 then \<lparr>x_ret = 3, x_data = (\<lambda>_. 0)\<rparr>
      else if n = 38 \<or> n = 39 then \<lparr>x_ret = 4, x_data = (\<lambda>_. 0)\<rparr>
      else \<lparr>x_ret = 2, x_data = (\<lambda>_. 0x0A)\<rparr>)"

text \<open>
  \<open>crc_fail_device\<close> is in its bootloader: it answers the version probe with the ID
  \<^verbatim>\<open>0x0200\<close> and acknowledges the 241 block writes, then answers the CRC command
  with the fail byte \<^verbatim>\<open>0x01\<close>. After the reset pulse it runs its old firmware and
  answers the transfers of \<^verbatim>\<open>iqs5xx_dev_init\<close> as \<open>stale_device\<close> does.
\<close>

definition bl_id_bytes :: "nat \<Rightarrow> u8" where
  "bl_id_bytes i = [0x02, 0x00] ! i"

definition crc_fail_device :: "nat \<Rightarrow> xfer" where
  "crc_fail_device n =
     (if n = 1 then \<lparr>x_ret = 1, x_data = bl_id_bytes\<rparr>
      else if n < 244 then \<lparr>x_ret = 1, x_data = (\<lambda>_. 0)\<rparr>
      else if n = 244 then \<lparr>x_ret = 1, x_data = (\<lambda>_. 0x01)\<rparr>
      else if n = 245 then \<lparr>x_ret = 2, x_data = id_bytes\<rparr>
      else if n = 249 \<or> n = 255 \<or> n = 256 \<or> n = 257 then \<lparr>x_ret = 3, x_data = (\<lambda>_. 0)\<rparr>
      else if n = 252 \<or> n = 253 then \<lparr>x_ret = 4, x_data = (\<lambda>_. 0)\<rparr>
      else \<lparr>x_ret = 2, x_data = (\<lambda>_. 0x0A)\<rparr>)"












text \<open>An environment in which the allocation of the image buffer fails.\<close>

definition no_memory_env :: env where
  "no_memory_env = (sample_env no_device fw_eof)\<lparr>kzalloc_ok := False\<rparr>"

section \<open>Properties\<close>

subsection \<open>Gates that reject before anything is done\<close>

text \<open>
  C6. When the stored bootloader status says that the device has no bootloader,
  \<^verbatim>\<open>iqs5xx_fw_file_write\<close> returns \<^verbatim>\<open>-EPERM\<close> and leaves the state as it was: the
  log is unchanged, so no buffer was allocated, no firmware was requested or parsed and
  no bus transfer was issued.
\<close>

theorem fw_file_write_no_bootloader:
  "bl_status s = IQS5XX_BL_STATUS_NONE \<Longrightarrow> iqs5xx_fw_file_write E fw_file s = (- EPERM, s)"
  by (simp add: iqs5xx_fw_file_write_def)

theorem fw_file_write_no_bootloader_witness:
  "bl_status (sample_state 0xEE) = IQS5XX_BL_STATUS_NONE \<and>
   iqs5xx_fw_file_write (sample_env no_device '':00000001FF'') ''iqs550.hex'' (sample_state 0xEE)
     = (- EPERM, sample_state 0xEE)"
proof -
  have h: "bl_status (sample_state 0xEE) = IQS5XX_BL_STATUS_NONE"
    by (simp add: sample_state_def)
  from fw_file_write_no_bootloader [OF h] h show ?thesis
    by simp
qed

text \<open>
  C7. When the length handed to \<^verbatim>\<open>iqs5xx_bl_write\<close> or to \<^verbatim>\<open>iqs5xx_bl_verify\<close> is no
  multiple of the 64-byte block length, the function returns \<^verbatim>\<open>-EINVAL\<close> at once and
  the state is unchanged: not one bus write, respectively bus read, was issued.
\<close>

theorem bl_write_verify_bad_length:
  "unat pmap_len mod IQS5XX_BL_BLK_LEN_MAX \<noteq> 0 \<Longrightarrow>
     iqs5xx_bl_write E bl_addr pmap_data pmap_len s = (- EINVAL, s) \<and>
     iqs5xx_bl_verify E bl_addr pmap_data pmap_len s = (- EINVAL, s)"
  by (simp add: iqs5xx_bl_write_def iqs5xx_bl_verify_def)

theorem bl_write_verify_bad_length_witness:
  "unat (0x3C3F :: u16) mod IQS5XX_BL_BLK_LEN_MAX \<noteq> 0 \<and>
   iqs5xx_bl_write (sample_env no_device []) IQS5XX_CHKSM (\<lambda>_. 0) 0x3C3F (sample_state 0)
     = (- EINVAL, sample_state 0) \<and>
   iqs5xx_bl_verify (sample_env no_device []) IQS5XX_CHKSM (\<lambda>_. 0) 0x3C3F (sample_state 0)
     = (- EINVAL, sample_state 0)"
proof -
  have h: "unat (0x3C3F :: u16) mod IQS5XX_BL_BLK_LEN_MAX \<noteq> 0"
    by simp
  from bl_write_verify_bad_length [OF h] h show ?thesis
    by blast
qed

text \<open>
  C9. While the stored bootloader status is \<^verbatim>\<open>IQS5XX_BL_STATUS_RESET\<close>,
  \<^verbatim>\<open>iqs5xx_set_state\<close> returns 0 and changes nothing: no lock is taken, no interrupt is
  masked and no bus write is issued. The same holds for its callers, the input
  device's open and close callbacks and the suspend and resume hooks.
\<close>

theorem set_state_reset_noop:
  "bl_status s = IQS5XX_BL_STATUS_RESET \<Longrightarrow>
     iqs5xx_set_state E state s = (0, s) \<and>
     iqs5xx_open E s = (0, s) \<and> iqs5xx_close E s = s \<and>
     iqs5xx_suspend E s = (0, s) \<and> iqs5xx_resume E s = (0, s)"
  by (simp add: iqs5xx_set_state_def iqs5xx_open_def iqs5xx_close_def
        iqs5xx_suspend_def iqs5xx_resume_def)

theorem set_state_reset_noop_witness:
  "bl_status (sample_state 0) = IQS5XX_BL_STATUS_RESET \<and>
   iqs5xx_set_state (sample_env no_device []) IQS5XX_SUSPEND (sample_state 0) = (0, sample_state 0) \<and>
   log (snd (iqs5xx_set_state (sample_env no_device []) IQS5XX_SUSPEND (sample_state 0))) = []"
proof -
  have h: "bl_status (sample_state 0) = IQS5XX_BL_STATUS_RESET"
    by (simp add: sample_state_def)
  from set_state_reset_noop [OF h, of "sample_env no_device []" IQS5XX_SUSPEND] h show ?thesis
    by (simp add: sample_state_def)
qed

subsection \<open>The firmware-file control\<close>

text \<open>
  What \<^verbatim>\<open>fw_file_store\<close> does with every buffer: an empty one is refused; else the
  name is the buffer without its last character when that is a newline, and the
  buffer itself otherwise; a name of more than 64 characters is refused; any other
  name goes on to \<^verbatim>\<open>iqs5xx_fw_file_write\<close>.
\<close>

lemma fw_file_store_full:
  "fw_file_store E buf s =
     (if buf = [] then (- EINVAL, s)
      else if length (if last buf = CHR 0x0A then butlast buf else buf) > IQS5XX_FW_FILE_LEN
      then (- ENAMETOOLONG, s)
      else fw_file_register E (length buf) (\<not> input s)
             (iqs5xx_fw_file_write E
                (c_string (if last buf = CHR 0x0A then butlast buf else buf)) s))"
proof (cases "buf = []")
  case True
  then show ?thesis
    by (simp add: fw_file_store_def)
next
  case False
  then have n: "buf ! (length buf - 1) = last buf"
    by (simp add: last_conv_nth)
  have t: "take (length buf - 1) buf = butlast buf"
    by (simp add: butlast_conv_take)
  from False have l: "length buf \<noteq> 0"
    by simp
  show ?thesis
  proof (cases "last buf = CHR 0x0A")
    case True
    with False n t l show ?thesis
      by (simp add: fw_file_store_def Let_def)
  next
    case nl: False
    with False n l show ?thesis
      by (simp add: fw_file_store_def Let_def)
  qed
qed

text \<open>The same on the buffers at the limits.\<close>

lemma fw_file_store_shapes:
  "fw_file_store E [] s = (- EINVAL, s) \<and>
   (length buf = 65 \<and> last buf \<noteq> CHR 0x0A \<longrightarrow>
      fw_file_store E buf s = (- ENAMETOOLONG, s)) \<and>
   (length buf' = 65 \<and> last buf' = CHR 0x0A \<longrightarrow>
      fw_file_store E buf' s =
        fw_file_register E 65 (\<not> input s) (iqs5xx_fw_file_write E (c_string (butlast buf')) s)) \<and>
   fw_file_store E [CHR 0x0A] s =
     fw_file_register E 1 (\<not> input s) (iqs5xx_fw_file_write E [] s) \<and>
   (length name < IQS5XX_FW_FILE_LEN \<longrightarrow>
      fw_file_store E (name @ [CHR 0x0A, CHR 0x0A]) s =
        fw_file_register E (length name + 2) (\<not> input s)
          (iqs5xx_fw_file_write E (c_string (name @ [CHR 0x0A])) s))"
proof (intro conjI impI)
  show "fw_file_store E [] s = (- EINVAL, s)"
    by (simp add: fw_file_store_def)
next
  assume a: "length buf = 65 \<and> last buf \<noteq> CHR 0x0A"
  then have ne: "buf \<noteq> []"
    by auto
  from a have len: "length buf = 65" and "last buf \<noteq> CHR 0x0A"
    by simp_all
  with last_conv_nth [OF ne] have "buf ! (length buf - 1) \<noteq> CHR 0x0A"
    by simp
  with ne len
  show "fw_file_store E buf s = (- ENAMETOOLONG, s)"
    by (simp add: fw_file_store_def)
next
  assume a: "length buf' = 65 \<and> last buf' = CHR 0x0A"
  then have ne: "buf' \<noteq> []"
    by auto
  from a have len: "length buf' = 65" and "last buf' = CHR 0x0A"
    by simp_all
  with last_conv_nth [OF ne] have "buf' ! (length buf' - 1) = CHR 0x0A"
    by simp
  with ne len show "fw_file_store E buf' s =
      fw_file_register E 65 (\<not> input s) (iqs5xx_fw_file_write E (c_string (butlast buf')) s)"
    by (simp add: fw_file_store_def butlast_conv_take)
next
  show "fw_file_store E [CHR 0x0A] s =
     fw_file_register E 1 (\<not> input s) (iqs5xx_fw_file_write E [] s)"
    by (simp add: fw_file_store_def c_string_def)
next
  assume "length name < IQS5XX_FW_FILE_LEN"
  then show "fw_file_store E (name @ [CHR 0x0A, CHR 0x0A]) s =
        fw_file_register E (length name + 2) (\<not> input s)
          (iqs5xx_fw_file_write E (c_string (name @ [CHR 0x0A])) s)"
    by (simp add: fw_file_store_def nth_append)
qed

text \<open>
  C10. \<^verbatim>\<open>fw_file_store\<close> tests for an empty write first, then drops one trailing
  newline, then applies the 64-character limit, for every buffer: a zero-length write
  returns \<^verbatim>\<open>-EINVAL\<close>; otherwise the name is the buffer less one final newline, a
  name of more than 64 characters returns \<^verbatim>\<open>-ENAMETOOLONG\<close>, and any other name
  goes on to \<^verbatim>\<open>iqs5xx_fw_file_write\<close>. In particular 65 bytes without a final
  newline return \<^verbatim>\<open>-ENAMETOOLONG\<close>; 65 bytes with a final newline go on with the
  first 64 as the name; a lone newline goes on with the empty name; and of two
  trailing newlines only the last is dropped.
\<close>

theorem fw_file_store_newline:
  "fw_file_store E b s =
     (if b = [] then (- EINVAL, s)
      else if length (if last b = CHR 0x0A then butlast b else b) > IQS5XX_FW_FILE_LEN
      then (- ENAMETOOLONG, s)
      else fw_file_register E (length b) (\<not> input s)
             (iqs5xx_fw_file_write E
                (c_string (if last b = CHR 0x0A then butlast b else b)) s)) \<and>
   fw_file_store E [] s = (- EINVAL, s) \<and>
   (length buf = 65 \<and> last buf \<noteq> CHR 0x0A \<longrightarrow>
      fw_file_store E buf s = (- ENAMETOOLONG, s)) \<and>
   (length buf' = 65 \<and> last buf' = CHR 0x0A \<longrightarrow>
      fw_file_store E buf' s =
        fw_file_register E 65 (\<not> input s) (iqs5xx_fw_file_write E (c_string (butlast buf')) s)) \<and>
   fw_file_store E [CHR 0x0A] s =
     fw_file_register E 1 (\<not> input s) (iqs5xx_fw_file_write E [] s) \<and>
   (length name < IQS5XX_FW_FILE_LEN \<longrightarrow>
      fw_file_store E (name @ [CHR 0x0A, CHR 0x0A]) s =
        fw_file_register E (length name + 2) (\<not> input s)
          (iqs5xx_fw_file_write E (c_string (name @ [CHR 0x0A])) s))"
  by (rule conjI [OF fw_file_store_full fw_file_store_shapes])

theorem fw_file_store_newline_witness:
  "fw_file_store (sample_env no_device []) (''iqs550.hex'' @ [CHR 0x0A]) (sample_state 0xA5)
     = fw_file_register (sample_env no_device []) (length (''iqs550.hex'' @ [CHR 0x0A])) False
         (iqs5xx_fw_file_write (sample_env no_device []) ''iqs550.hex'' (sample_state 0xA5)) \<and>
   fw_file_store (sample_env no_device []) ''iqs550.hex'' (sample_state 0xA5)
     = fw_file_register (sample_env no_device []) (length ''iqs550.hex'') False
         (iqs5xx_fw_file_write (sample_env no_device []) ''iqs550.hex'' (sample_state 0xA5)) \<and>
   fw_file_store (sample_env no_device []) (replicate 70 (CHR ''a'')) (sample_state 0xA5)
     = (- ENAMETOOLONG, sample_state 0xA5) \<and>
   fw_file_store (sample_env no_device []) (replicate 65 (CHR ''a'') @ [CHR 0x0A]) (sample_state 0xA5)
     = (- ENAMETOOLONG, sample_state 0xA5) \<and>
   fw_file_store (sample_env no_device []) (replicate 65 (CHR ''a'')) (sample_state 0xEE)
     = (- ENAMETOOLONG, sample_state 0xEE) \<and>
   fw_file_store (sample_env no_device []) (replicate 64 (CHR ''a'') @ [CHR 0x0A]) (sample_state 0xEE)
     = (- EPERM, sample_state 0xEE) \<and>
   fw_file_store (sample_env no_device []) (''fw'' @ [CHR 0x0A, CHR 0x0A]) (sample_state 0xEE)
     = (- EPERM, sample_state 0xEE)"
proof -
  let ?E = "sample_env no_device []"
  note g = fw_file_store_newline [THEN conjunct1]
  have i: "input (sample_state 0xA5)"
    by (simp add: sample_state_def)
  from g [of ?E "''iqs550.hex'' @ [CHR 0x0A]" "sample_state 0xA5"] i
  have r1: "fw_file_store ?E (''iqs550.hex'' @ [CHR 0x0A]) (sample_state 0xA5)
     = fw_file_register ?E (length (''iqs550.hex'' @ [CHR 0x0A])) False (iqs5xx_fw_file_write ?E ''iqs550.hex'' (sample_state 0xA5))"
    by (simp add: c_string_def)
  from g [of ?E "''iqs550.hex''" "sample_state 0xA5"] i
  have r2: "fw_file_store ?E ''iqs550.hex'' (sample_state 0xA5)
     = fw_file_register ?E (length ''iqs550.hex'') False (iqs5xx_fw_file_write ?E ''iqs550.hex'' (sample_state 0xA5))"
    by (simp add: c_string_def)
  from g [of ?E "replicate 70 (CHR ''a'')" "sample_state 0xA5"]
  have r3: "fw_file_store ?E (replicate 70 (CHR ''a'')) (sample_state 0xA5)
     = (- ENAMETOOLONG, sample_state 0xA5)"
    by simp
  from g [of ?E "replicate 65 (CHR ''a'') @ [CHR 0x0A]" "sample_state 0xA5"]
  have r4: "fw_file_store ?E (replicate 65 (CHR ''a'') @ [CHR 0x0A]) (sample_state 0xA5)
     = (- ENAMETOOLONG, sample_state 0xA5)"
    by simp
  have a: "length (replicate 65 (CHR ''a'')) = 65 \<and> last (replicate 65 (CHR ''a'')) \<noteq> CHR 0x0A"
    by simp
  have b: "length (replicate 64 (CHR ''a'') @ [CHR 0x0A]) = 65 \<and>
           last (replicate 64 (CHR ''a'') @ [CHR 0x0A]) = CHR 0x0A"
    by simp
  have c: "length ''fw'' < IQS5XX_FW_FILE_LEN"
    by simp
  have w: "iqs5xx_fw_file_write ?E n (sample_state 0xEE) = (- EPERM, sample_state 0xEE)" for n
    by (simp add: iqs5xx_fw_file_write_def sample_state_def)
  from fw_file_store_newline [THEN conjunct2,
         of ?E "sample_state 0xEE" "replicate 65 (CHR ''a'')"
             "replicate 64 (CHR ''a'') @ [CHR 0x0A]" "''fw''"] a b c
  have r5: "fw_file_store ?E (replicate 65 (CHR ''a'')) (sample_state 0xEE)
     = (- ENAMETOOLONG, sample_state 0xEE) \<and>
   fw_file_store ?E (replicate 64 (CHR ''a'') @ [CHR 0x0A]) (sample_state 0xEE)
     = (- EPERM, sample_state 0xEE) \<and>
   fw_file_store ?E (''fw'' @ [CHR 0x0A, CHR 0x0A]) (sample_state 0xEE)
     = (- EPERM, sample_state 0xEE)"
    by (simp add: w fw_file_register_def)
  from r1 r2 r3 r4 r5 show ?thesis
    by simp
qed

subsection \<open>Checksums of hex records\<close>

text \<open>
  C2 (as amended). For a record that decodes and whose recomputed checksum differs from
  the recorded one: when its address is below \<^verbatim>\<open>0xBE00\<close> the parse fails with
  \<^verbatim>\<open>-EINVAL\<close>; when its address is \<^verbatim>\<open>0xBE00\<close> or above, the mismatch is ignored
  and the record is treated as one with the right checksum; in particular a data
  record in \<^verbatim>\<open>0xBE00..0xBFFF\<close> is stored and parsing continues after it.
\<close>

theorem parse_checksum_mismatch:
  assumes dec: "ihex_rec_decode fw pos = Inr (rec_hdr, rec_data, rec_chksm, pos')"
    and bad: "rec_chksm_calc rec_hdr rec_data \<noteq> rec_chksm"
  shows "(rec_addr_of rec_hdr < IQS5XX_CSTM \<longrightarrow> parse_loop fw pos pmap = (- EINVAL, pmap)) \<and>
         (IQS5XX_CSTM \<le> rec_addr_of rec_hdr \<longrightarrow>
            ihex_rec_check rec_hdr rec_data rec_chksm pmap
              = ihex_rec_check rec_hdr rec_data (rec_chksm_calc rec_hdr rec_data) pmap) \<and>
         (IQS5XX_CSTM \<le> rec_addr_of rec_hdr \<and> rec_addr_of rec_hdr \<le> IQS5XX_PMAP_END \<and>
          rec_type_of rec_hdr = IQS5XX_REC_TYPE_DATA \<longrightarrow>
            parse_loop fw pos pmap =
              parse_loop fw (skip_to_start fw pos')
                (memcpy pmap (unat (rec_addr_of rec_hdr) - unat IQS5XX_CHKSM) rec_data
                   (unat (rec_hdr ! 0))))"
proof (intro conjI impI)
  assume "rec_addr_of rec_hdr < IQS5XX_CSTM"
  with dec bad show "parse_loop fw pos pmap = (- EINVAL, pmap)"
    by (subst parse_loop.simps) (simp add: ihex_rec_check_def)
next
  assume "IQS5XX_CSTM \<le> rec_addr_of rec_hdr"
  then have "\<not> rec_addr_of rec_hdr < IQS5XX_CSTM"
    by (simp add: not_less)
  then show "ihex_rec_check rec_hdr rec_data rec_chksm pmap
              = ihex_rec_check rec_hdr rec_data (rec_chksm_calc rec_hdr rec_data) pmap"
    by (simp add: ihex_rec_check_def)
next
  assume a: "IQS5XX_CSTM \<le> rec_addr_of rec_hdr \<and> rec_addr_of rec_hdr \<le> IQS5XX_PMAP_END \<and>
          rec_type_of rec_hdr = IQS5XX_REC_TYPE_DATA"
  then have 1: "\<not> rec_addr_of rec_hdr < IQS5XX_CSTM" and 2: "\<not> rec_addr_of rec_hdr > IQS5XX_PMAP_END"
    and 3: "rec_type_of rec_hdr = 0"
    by (simp_all add: not_less)
  have "IQS5XX_CHKSM \<le> IQS5XX_CSTM"
    by simp
  with a have "IQS5XX_CHKSM \<le> rec_addr_of rec_hdr"
    using order_trans by blast
  then have 4: "\<not> rec_addr_of rec_hdr < IQS5XX_CHKSM"
    by (simp add: not_less)
  from dec 1 2 3 4 show "parse_loop fw pos pmap =
              parse_loop fw (skip_to_start fw pos')
                (memcpy pmap (unat (rec_addr_of rec_hdr) - unat IQS5XX_CHKSM) rec_data
                   (unat (rec_hdr ! 0)))"
    by (subst parse_loop.simps) (simp add: ihex_rec_check_def ihex_rec_store_def)
qed


theorem parse_checksum_mismatch_witness:
  "ihex_rec_decode fw_bad_cstm 0
     = Inr ([1, 0xBE, 0, 0], [0xAA], 0, 13) \<and>
   rec_chksm_calc [1, 0xBE, 0, 0] [0xAA] \<noteq> 0 \<and>
   ihex_rec_check [1, 0xBE, 0, 0] [0xAA] 0 kzalloc_image
     = ihex_rec_check [1, 0xBE, 0, 0] [0xAA] (rec_chksm_calc [1, 0xBE, 0, 0] [0xAA]) kzalloc_image \<and>
   parse_loop fw_bad_cstm 0 kzalloc_image
     = parse_loop fw_bad_cstm 14
         (memcpy kzalloc_image 0x3A40 [0xAA] 1) \<and>
   ihex_rec_decode fw_bad_chksm 0 = Inr ([1, 0x83, 0xC0, 0], [0xAA], 0, 13) \<and>
   rec_chksm_calc [1, 0x83, 0xC0, 0] [0xAA] \<noteq> 0 \<and>
   parse_loop fw_bad_chksm 0 kzalloc_image = (- EINVAL, kzalloc_image)"
proof -
  have d1: "ihex_rec_decode fw_bad_cstm 0
              = Inr ([1, 0xBE, 0, 0], [0xAA], 0, 13)"
    by code_simp
  have c1: "rec_chksm_calc [1, 0xBE, 0, 0] [0xAA] \<noteq> 0"
    by (simp add: rec_chksm_calc_def)
  have d2: "ihex_rec_decode fw_bad_chksm 0 = Inr ([1, 0x83, 0xC0, 0], [0xAA], 0, 13)"
    by code_simp
  have c2: "rec_chksm_calc [1, 0x83, 0xC0, 0] [0xAA] \<noteq> 0"
    by (simp add: rec_chksm_calc_def)
  have sk: "skip_to_start fw_bad_cstm 13 = 14"
    by code_simp
  from parse_checksum_mismatch [OF d1 c1, of kzalloc_image]
  have r1: "parse_loop fw_bad_cstm 0 kzalloc_image
     = parse_loop fw_bad_cstm 14
         (memcpy kzalloc_image 0x3A40 [0xAA] 1)"
    by (simp add: sk rec_addr_of_def rec_type_of_def get_be16_def)
  from parse_checksum_mismatch [OF d1 c1, of kzalloc_image]
  have r3: "ihex_rec_check [1, 0xBE, 0, 0] [0xAA] 0 kzalloc_image
     = ihex_rec_check [1, 0xBE, 0, 0] [0xAA] (rec_chksm_calc [1, 0xBE, 0, 0] [0xAA]) kzalloc_image"
    by (simp add: rec_addr_of_def get_be16_def)
  from parse_checksum_mismatch [OF d2 c2, of kzalloc_image]
  have r2: "parse_loop fw_bad_chksm 0 kzalloc_image = (- EINVAL, kzalloc_image)"
    by (simp add: rec_addr_of_def get_be16_def)
  from d1 c1 r3 r1 d2 c2 r2 show ?thesis
    by (intro conjI)
qed

text \<open>
  The claim as first stated lets the mismatch pass only inside
  \<^verbatim>\<open>0xBE00..0xBFFF\<close>. The test in the code is \<^verbatim>\<open>rec_addr < IQS5XX_CSTM\<close>, so it
  also passes above the region: an end-of-file record at \<^verbatim>\<open>0xFFFF\<close> with a wrong
  checksum is accepted and the parse succeeds.
\<close>

theorem parse_checksum_counterexample:
  "ihex_rec_decode fw_bad_eof 0 = Inr ([0, 0xFF, 0xFF, 1], [], 0, 11) \<and>
   rec_chksm_calc [0, 0xFF, 0xFF, 1] [] \<noteq> 0 \<and>
   rec_addr_of [0, 0xFF, 0xFF, 1] = 0xFFFF \<and>
   \<not> (IQS5XX_CSTM \<le> rec_addr_of [0, 0xFF, 0xFF, 1] \<and>
      rec_addr_of [0, 0xFF, 0xFF, 1] \<le> IQS5XX_PMAP_END) \<and>
   fst (fst (iqs5xx_fw_file_parse (sample_env no_device fw_bad_eof) ''iqs550.hex''
               kzalloc_image (sample_state 0xA5))) = 0"
proof -
  have d: "ihex_rec_decode fw_bad_eof 0 = Inr ([0, 0xFF, 0xFF, 1], [], 0, 11)"
    by code_simp
  have c: "rec_chksm_calc [0, 0xFF, 0xFF, 1] [] \<noteq> 0"
    by (simp add: rec_chksm_calc_def)
  have a: "rec_addr_of [0, 0xFF, 0xFF, 1] = 0xFFFF"
    by (simp add: rec_addr_of_def get_be16_def)
  have p: "fst (parse_loop fw_bad_eof 0 kzalloc_image) = 0"
    by (subst parse_loop.simps)
       (simp add: d a ihex_rec_check_def ihex_rec_store_def rec_type_of_def)
  have f: "fst (fst (iqs5xx_fw_file_parse (sample_env no_device fw_bad_eof) ''iqs550.hex''
               kzalloc_image (sample_state 0xA5))) = 0"
    by (simp add: iqs5xx_fw_file_parse_def sample_env_def p)
  from d c a f show ?thesis
    by simp
qed

subsection \<open>Opening the bootloader\<close>























subsection \<open>Block writes\<close>


text \<open>When every block is acknowledged the loop writes them all and returns 0.\<close>

lemma bl_write_loop_ok:
  "(\<forall>k<m. x_ret (bus E (tick s + k)) = 1) \<Longrightarrow> n = i + 64 * m \<Longrightarrow>
     fst (bl_write_loop E a d n i s) = 0 \<and>
     tick (snd (bl_write_loop E a d n i s)) = tick s + m \<and>
     input (snd (bl_write_loop E a d n i s)) = input s \<and>
     bl_status (snd (bl_write_loop E a d n i s)) = bl_status s"
proof (induction m arbitrary: i s)
  case 0
  then show ?case
    by (simp add: bl_write_loop.simps [of E a d i i s])
next
  case (Suc m)
  let ?s1 = "snd (i2c_transfer E [bl_msg E False (2 + IQS5XX_BL_BLK_LEN_MAX)
          (put_be16 (a + of_nat i) @ map d [i..<i + IQS5XX_BL_BLK_LEN_MAX])] s)"
  from Suc.prems have x: "x_ret (bus E (tick s)) = 1"
    by (metis add.right_neutral zero_less_Suc)
  from Suc.prems have "\<forall>k<m. x_ret (bus E (tick ?s1 + k)) = 1"
    by (auto simp: i2c_transfer_def)
  moreover from Suc.prems have "n = (i + 64) + 64 * m"
    by simp
  ultimately have ih: "fst (bl_write_loop E a d n (i + 64) ?s1) = 0 \<and>
     tick (snd (bl_write_loop E a d n (i + 64) ?s1)) = tick ?s1 + m \<and>
     input (snd (bl_write_loop E a d n (i + 64) ?s1)) = input ?s1 \<and>
     bl_status (snd (bl_write_loop E a d n (i + 64) ?s1)) = bl_status ?s1"
    by (rule Suc.IH)
  from Suc.prems have lt: "i < n"
    by simp
  from lt x have "bl_write_loop E a d n i s = bl_write_loop E a d n (i + 64) ?s1"
    by (subst bl_write_loop.simps) (simp add: i2c_transfer_def)
  with ih show ?case
    by (simp add: i2c_transfer_def)
qed

subsection \<open>Stores of the parser into the image\<close>

text \<open>
  C8. The claim is that every accepted data record is copied inside the
  \<^verbatim>\<open>IQS5XX_PMAP_LEN\<close> bytes of the image. The parser tests the record's address
  against \<^verbatim>\<open>0x83C0..0xBFFF\<close> and not its end: for the file \<open>fw_past_end\<close>, whose
  data record puts two bytes at \<^verbatim>\<open>0xBFFF\<close>, the parse succeeds and the second byte
  is stored at offset \<^verbatim>\<open>IQS5XX_PMAP_LEN\<close>, the first byte after the buffer.
\<close>

theorem parse_past_image_end:
  "fst (fst (iqs5xx_fw_file_parse (sample_env no_device fw_past_end) ''iqs550.hex''
               kzalloc_image (sample_state 0xA5))) = 0 \<and>
   snd (fst (iqs5xx_fw_file_parse (sample_env no_device fw_past_end) ''iqs550.hex''
               kzalloc_image (sample_state 0xA5))) IQS5XX_PMAP_LEN = 0xBB \<and>
   kzalloc_image IQS5XX_PMAP_LEN = 0"
proof -
  have d1: "ihex_rec_decode fw_past_end 0 = Inr ([2, 0xBF, 0xFF, 0], [0xAA, 0xBB], 0xDB, 15)"
    by code_simp
  have sk: "skip_to_start fw_past_end 15 = 16"
    by code_simp
  have d2: "ihex_rec_decode fw_past_end 16 = Inr ([0, 0, 0, 1], [], 0xFF, 27)"
    by code_simp
  have a1: "rec_addr_of [2, 0xBF, 0xFF, 0] = 0xBFFF"
    by (simp add: rec_addr_of_def get_be16_def)
  have p2: "parse_loop fw_past_end 16 m = (0, m)" for m
    by (subst parse_loop.simps)
       (simp add: d2 ihex_rec_check_def ihex_rec_store_def rec_type_of_def rec_addr_of_def
          rec_chksm_calc_def get_be16_def)
  have p1: "parse_loop fw_past_end 0 kzalloc_image
              = (0, memcpy kzalloc_image 0x3C3F [0xAA, 0xBB] 2)"
    by (subst parse_loop.simps)
       (simp add: d1 a1 sk p2 ihex_rec_check_def ihex_rec_store_def rec_type_of_def)
  have m: "memcpy kzalloc_image 0x3C3F [0xAA, 0xBB] 2 IQS5XX_PMAP_LEN = 0xBB"
    by (simp add: memcpy_def)
  from p1 m show ?thesis
    by (simp add: iqs5xx_fw_file_parse_def sample_env_def kzalloc_image_def)
qed

subsection \<open>The status of the flash operation\<close>

text \<open>
  Helper facts for runs on an answering device: register reads and writes that
  succeed at the first transfer.
\<close>

lemma read_burst_first:
  "x_ret (bus E (tick s)) = 2 \<Longrightarrow>
     iqs5xx_read_burst E reg len s =
       ((0, map (x_data (bus E (tick s))) [0..<len]),
        s\<lparr>tick := Suc (tick s),
          log := log s @ [I2cTransfer
            [\<lparr>msg_addr = client_addr E, msg_rd = False, msg_len = 2, msg_buf = put_be16 reg\<rparr>,
             \<lparr>msg_addr = client_addr E, msg_rd = True, msg_len = len, msg_buf = []\<rparr>]]\<rparr>)"
  using read_burst_loop.simps(2) [of E _ 9 0 s]
  by (simp add: iqs5xx_read_burst_def i2c_transfer_def)

lemma write_burst_first:
  "x_ret (bus E (tick s)) = int (2 + length val) \<Longrightarrow> length val \<le> 2 \<Longrightarrow>
     iqs5xx_write_burst E reg val s =
       (0, s\<lparr>tick := Suc (tick s),
          log := log s @ [I2cTransfer
            [\<lparr>msg_addr = client_addr E, msg_rd = False, msg_len = 2 + length val,
              msg_buf = put_be16 reg @ val\<rparr>]]\<rparr>)"
  using write_burst_loop.simps(2) [of E _ 9 0 s]
  by (simp add: iqs5xx_write_burst_def i2c_master_send_def i2c_transfer_def put_be16_def)


lemma upt7: "[0..<7] = [0, 1, 2, 3, 4, 5, 6]" "[0..<2] = [0, 1]" "[0..<1] = [0]"
  by code_simp+

lemma dev_init_after_crc:
  assumes "tick s = 245" and "input s"
  shows "fst (iqs5xx_dev_init (sample_env crc_fail_device fw_eof) s) = 0 \<and>
         bl_status (snd (iqs5xx_dev_init (sample_env crc_fail_device fw_eof) s)) = IQS5XX_BL_STATUS_AVAIL"
  using assms
  by (simp add: iqs5xx_dev_init_def dev_init_setup_def iqs5xx_axis_init_def axis_max_def
        iqs5xx_read_byte_def iqs5xx_read_word_def iqs5xx_write_byte_def iqs5xx_write_word_def
        read_burst_first write_burst_first sample_env_def crc_fail_device_def id_bytes_def
        get_be16_def emit_def put_be16_def upt7 del: upt_Suc)


lemma flash_steps_crc_fail:
  assumes t0: "tick s = 0"
  shows "fst (fw_flash_steps (sample_env crc_fail_device fw_eof) p s) = - EIO \<and>
         tick (snd (fw_flash_steps (sample_env crc_fail_device fw_eof) p s)) = 245 \<and>
         input (snd (fw_flash_steps (sample_env crc_fail_device fw_eof) p s)) = input s"
proof -
  let ?E = "sample_env crc_fail_device fw_eof"
  obtain s1 where v: "iqs5xx_bl_cmd ?E IQS5XX_BL_CMD_VER 0 s = (0, s1)"
    and s1: "tick s1 = 2" "input s1 = input s"
    using t0
    by (simp add: iqs5xx_bl_cmd_def i2c_transfer_def sample_env_def crc_fail_device_def
          bl_id_bytes_def get_be16_def)
  have "\<forall>k<241. x_ret (bus ?E (tick s1 + k)) = 1"
    using s1 by (simp add: sample_env_def crc_fail_device_def)
  from bl_write_loop_ok [OF this, of 15424 0 IQS5XX_CHKSM p] s1
  have w: "fst (iqs5xx_bl_write ?E IQS5XX_CHKSM p (of_nat IQS5XX_PMAP_LEN) s1) = 0"
    "tick (snd (iqs5xx_bl_write ?E IQS5XX_CHKSM p (of_nat IQS5XX_PMAP_LEN) s1)) = 243"
    "input (snd (iqs5xx_bl_write ?E IQS5XX_CHKSM p (of_nat IQS5XX_PMAP_LEN) s1)) = input s"
    by (simp_all add: iqs5xx_bl_write_def)
  have c: "fst (iqs5xx_bl_cmd ?E IQS5XX_BL_CMD_CRC 0 s') = - EIO \<and>
           tick (snd (iqs5xx_bl_cmd ?E IQS5XX_BL_CMD_CRC 0 s')) = 245 \<and>
           input (snd (iqs5xx_bl_cmd ?E IQS5XX_BL_CMD_CRC 0 s')) = input s'"
    if "tick s' = 243" for s'
    using that
    by (simp add: iqs5xx_bl_cmd_def i2c_transfer_def sample_env_def crc_fail_device_def)
  from v w c [OF w(2)] show ?thesis
    by (simp add: fw_flash_steps_def case_prod_beta)
qed

lemma parse_fw_eof: "parse_loop fw_eof 0 m = (0, m)"
proof -
  have d: "ihex_rec_decode fw_eof 0 = Inr ([0, 0, 0, 1], [], 0xFF, 11)"
    by code_simp
  show ?thesis
    by (subst parse_loop.simps)
       (simp add: d ihex_rec_check_def ihex_rec_store_def rec_type_of_def rec_addr_of_def
          rec_chksm_calc_def get_be16_def)
qed

lemma fw_file_write_crc_fail:
  "fst (iqs5xx_fw_file_write (sample_env crc_fail_device fw_eof) ''iqs550.hex'' (sample_state 0xA5)) = 0 \<and>
   bl_status (snd (iqs5xx_fw_file_write (sample_env crc_fail_device fw_eof) ''iqs550.hex''
                     (sample_state 0xA5))) = IQS5XX_BL_STATUS_AVAIL"
proof -
  let ?E = "sample_env crc_fail_device fw_eof"
  let ?s2 = "(emit DisableIrq (emit MutexLock (emit (RequestFirmware ''iqs550.hex'')
              (emit Kzalloc (sample_state 0xA5)))))\<lparr>bl_status := IQS5XX_BL_STATUS_RESET\<rparr>"
  have p: "iqs5xx_fw_file_parse ?E ''iqs550.hex'' kzalloc_image (emit Kzalloc (sample_state 0xA5))
             = ((0, kzalloc_image), emit (RequestFirmware ''iqs550.hex'') (emit Kzalloc (sample_state 0xA5)))"
    by (simp add: iqs5xx_fw_file_parse_def sample_env_def parse_fw_eof)
  have "tick ?s2 = 0" and i2: "input ?s2"
    by (simp_all add: emit_def sample_state_def)
  note st = flash_steps_crc_fail [OF this(1), of kzalloc_image]
  let ?s3 = "snd (fw_flash_steps ?E kzalloc_image ?s2)"
  from st i2 have "tick (iqs5xx_reset ?s3) = 245" "input (iqs5xx_reset ?s3)"
    by (simp_all add: iqs5xx_reset_def emit_def)
  note di = dev_init_after_crc [OF this]
  from st di have "fst (fw_flash_resync ?E (fst (fw_flash_steps ?E kzalloc_image ?s2)) ?s3) = 0 \<and>
    bl_status (snd (fw_flash_resync ?E (fst (fw_flash_steps ?E kzalloc_image ?s2)) ?s3))
      = IQS5XX_BL_STATUS_AVAIL"
    by (simp add: fw_flash_resync_def case_prod_beta emit_def Let_def)
  moreover have "bl_status (sample_state 0xA5) \<noteq> IQS5XX_BL_STATUS_NONE" and "kzalloc_ok ?E"
    by (simp_all add: sample_state_def sample_env_def)
  moreover have "bl_status (emit e s) = bl_status s" for e s
    by (simp add: emit_def)
  ultimately show ?thesis
    by (simp add: iqs5xx_fw_file_write_def p case_prod_beta Let_def)
qed

text \<open>
  C1. The claim is that a failing step makes \<^verbatim>\<open>iqs5xx_fw_file_write\<close> fail. After the
  label \<^verbatim>\<open>err_reset\<close> the status of the steps is overwritten by that of
  \<^verbatim>\<open>iqs5xx_dev_init\<close>. On \<open>stale_device\<close> the open sequence fails with
  \<^verbatim>\<open>-ENXIO\<close> (the status 6 negated), the device then identifies itself in normal
  mode, and the flash operation returns 0 with nothing written. On
  \<open>crc_fail_device\<close> the CRC command fails with \<^verbatim>\<open>-EIO\<close> after the image was
  written, and the flash operation returns 0 as well.
\<close>

theorem fw_file_write_loses_step_error:
  "fst (fw_flash_steps (sample_env stale_device fw_eof) kzalloc_image
          ((emit DisableIrq (emit MutexLock (emit (RequestFirmware ''iqs550.hex'')
              (emit Kzalloc (sample_state 0xA5)))))\<lparr>bl_status := IQS5XX_BL_STATUS_RESET\<rparr>)) = - 6 \<and>
   fst (iqs5xx_fw_file_write (sample_env stale_device fw_eof) ''iqs550.hex'' (sample_state 0xA5)) = 0 \<and>
   bl_status (snd (iqs5xx_fw_file_write (sample_env stale_device fw_eof) ''iqs550.hex''
                     (sample_state 0xA5))) = IQS5XX_BL_STATUS_AVAIL \<and>
   fst (fw_flash_steps (sample_env crc_fail_device fw_eof) kzalloc_image
          ((emit DisableIrq (emit MutexLock (emit (RequestFirmware ''iqs550.hex'')
              (emit Kzalloc (sample_state 0xA5)))))\<lparr>bl_status := IQS5XX_BL_STATUS_RESET\<rparr>)) = - EIO \<and>
   fst (iqs5xx_fw_file_write (sample_env crc_fail_device fw_eof) ''iqs550.hex'' (sample_state 0xA5)) = 0 \<and>
   bl_status (snd (iqs5xx_fw_file_write (sample_env crc_fail_device fw_eof) ''iqs550.hex''
                     (sample_state 0xA5))) = IQS5XX_BL_STATUS_AVAIL"
proof -
  have stale: "fst (fw_flash_steps (sample_env stale_device fw_eof) kzalloc_image
          ((emit DisableIrq (emit MutexLock (emit (RequestFirmware ''iqs550.hex'')
              (emit Kzalloc (sample_state 0xA5)))))\<lparr>bl_status := IQS5XX_BL_STATUS_RESET\<rparr>)) = - 6 \<and>
   fst (iqs5xx_fw_file_write (sample_env stale_device fw_eof) ''iqs550.hex'' (sample_state 0xA5)) = 0 \<and>
   bl_status (snd (iqs5xx_fw_file_write (sample_env stale_device fw_eof) ''iqs550.hex''
                     (sample_state 0xA5))) = IQS5XX_BL_STATUS_AVAIL"
    by code_simp
  have "tick ((emit DisableIrq (emit MutexLock (emit (RequestFirmware ''iqs550.hex'')
              (emit Kzalloc (sample_state 0xA5)))))\<lparr>bl_status := IQS5XX_BL_STATUS_RESET\<rparr>) = 0"
    by (simp add: emit_def sample_state_def)
  note crc = flash_steps_crc_fail [OF this, of kzalloc_image, THEN conjunct1]
  from stale crc fw_file_write_crc_fail show ?thesis
    by simp
qed

text \<open>The flash steps, whatever they return, leave the stored bootloader status alone.\<close>

lemma bl_status_emit: "bl_status (emit e s) = bl_status s"
  by (simp add: emit_def)

lemma bl_status_reset: "bl_status (iqs5xx_reset s) = bl_status s"
  by (simp add: iqs5xx_reset_def emit_def)

lemma bl_status_i2c_transfer: "bl_status (snd (i2c_transfer E msgs s)) = bl_status s"
  by (simp add: i2c_transfer_def)

lemma bl_status_bl_cmd: "bl_status (snd (iqs5xx_bl_cmd E c a s)) = bl_status s"
  by (simp add: iqs5xx_bl_cmd_def Let_def case_prod_beta bl_status_i2c_transfer)

lemma bl_status_bl_open_probes: "bl_status (snd (bl_open_probes E j err s)) = bl_status s"
  by (induction j arbitrary: err s) (simp_all add: case_prod_beta bl_status_bl_cmd)

lemma bl_status_bl_open_attempts: "bl_status (snd (bl_open_attempts E i err s)) = bl_status s"
  by (induction i arbitrary: err s)
     (simp_all add: case_prod_beta bl_status_bl_open_probes bl_status_reset)

lemma bl_status_bl_open: "bl_status (snd (iqs5xx_bl_open E s)) = bl_status s"
  by (simp add: iqs5xx_bl_open_def bl_status_bl_open_attempts)

lemma bl_status_bl_write_loop: "bl_status (snd (bl_write_loop E a d n i s)) = bl_status s"
proof (induction "n - i" arbitrary: i s rule: less_induct)
  case less
  show ?case
  proof (cases "i < n")
    case True
    then have "n - (i + 64) < n - i"
      by simp
    from less [OF this] True show ?thesis
      by (subst bl_write_loop.simps)
         (simp add: Let_def case_prod_beta bl_status_i2c_transfer)
  next
    case False
    then show ?thesis
      by (subst bl_write_loop.simps) simp
  qed
qed

lemma bl_status_bl_verify_loop: "bl_status (snd (bl_verify_loop E a d n i s)) = bl_status s"
proof (induction "n - i" arbitrary: i s rule: less_induct)
  case less
  show ?case
  proof (cases "i < n")
    case True
    then have "n - (i + 64) < n - i"
      by simp
    from less [OF this] True show ?thesis
      by (subst bl_verify_loop.simps)
         (simp add: Let_def case_prod_beta bl_status_i2c_transfer bl_status_bl_cmd)
  next
    case False
    then show ?thesis
      by (subst bl_verify_loop.simps) simp
  qed
qed

lemma bl_status_fw_flash_steps: "bl_status (snd (fw_flash_steps E pmap s)) = bl_status s"
  by (simp add: fw_flash_steps_def Let_def case_prod_beta iqs5xx_bl_write_def iqs5xx_bl_verify_def
        bl_status_bl_cmd bl_status_bl_open bl_status_bl_write_loop bl_status_bl_verify_loop)

text \<open>
  The three gates of \<^verbatim>\<open>iqs5xx_fw_file_write\<close>: each returns its status with the state
  as it was, but for the log of the allocation, the firmware request and the release.
\<close>

lemma fw_file_parse_state:
  "snd (iqs5xx_fw_file_parse E fw_file pmap s) = emit (RequestFirmware fw_file) s"
  by (simp add: iqs5xx_fw_file_parse_def Let_def case_prod_beta)

lemma fw_file_write_gates:
  "(bl_status s = IQS5XX_BL_STATUS_NONE \<longrightarrow> iqs5xx_fw_file_write E fw_file s = (- EPERM, s)) \<and>
   (bl_status s \<noteq> IQS5XX_BL_STATUS_NONE \<and> \<not> kzalloc_ok E \<longrightarrow>
      iqs5xx_fw_file_write E fw_file s = (- ENOMEM, emit Kzalloc s)) \<and>
   (bl_status s \<noteq> IQS5XX_BL_STATUS_NONE \<and> kzalloc_ok E \<and>
    fst (fst (iqs5xx_fw_file_parse E fw_file kzalloc_image (emit Kzalloc s))) \<noteq> 0 \<longrightarrow>
      iqs5xx_fw_file_write E fw_file s =
        (fst (fst (iqs5xx_fw_file_parse E fw_file kzalloc_image (emit Kzalloc s))),
         emit Kfree (emit (RequestFirmware fw_file) (emit Kzalloc s))))"
  using fw_file_parse_state [of E fw_file kzalloc_image "emit Kzalloc s"]
  by (auto simp: iqs5xx_fw_file_write_def split: prod.splits)

lemma fw_file_write_gate_frame:
  assumes "\<not> (bl_status s \<noteq> IQS5XX_BL_STATUS_NONE \<and> kzalloc_ok E \<and>
    fst (fst (iqs5xx_fw_file_parse E fw_file kzalloc_image (emit Kzalloc s))) = 0)"
  shows "fst (iqs5xx_fw_file_write E fw_file s) \<noteq> 0 \<and>
         tick (snd (iqs5xx_fw_file_write E fw_file s)) = tick s \<and>
         bl_status (snd (iqs5xx_fw_file_write E fw_file s)) = bl_status s \<and>
         input (snd (iqs5xx_fw_file_write E fw_file s)) = input s"
proof (cases "bl_status s = IQS5XX_BL_STATUS_NONE")
  case True
  with fw_file_write_gates [of s E fw_file] show ?thesis
    by simp
next
  case st: False
  show ?thesis
  proof (cases "kzalloc_ok E")
    case False
    with st fw_file_write_gates [of s E fw_file] show ?thesis
      by (simp add: emit_def)
  next
    case True
    with st assms
    have "fst (fst (iqs5xx_fw_file_parse E fw_file kzalloc_image (emit Kzalloc s))) \<noteq> 0"
      by simp
    with st True fw_file_write_gates [of s E fw_file] show ?thesis
      by (simp add: emit_def)
  qed
qed

text \<open>
  C4 (as amended). No call of \<^verbatim>\<open>iqs5xx_fw_file_write\<close> returns 0 with the stored
  status left at \<^verbatim>\<open>IQS5XX_BL_STATUS_RESET\<close>. Every call that gets past the
  bootloader-status test, the allocation and the parse ends with
  \<^verbatim>\<open>iqs5xx_dev_init\<close>, whatever the flash steps returned: it is run on a state whose
  stored status is \<^verbatim>\<open>IQS5XX_BL_STATUS_RESET\<close>, the final state is the one it leaves
  (followed by the unlock and the release of the buffer), and the status is that of
  \<^verbatim>\<open>iqs5xx_dev_init\<close>, or \<^verbatim>\<open>-EINVAL\<close> when it returned 0 with the stored status
  still \<^verbatim>\<open>IQS5XX_BL_STATUS_RESET\<close>. Every call that fails one of the three gates
  returns a nonzero status with no bus transfer and the stored status unchanged:
  \<^verbatim>\<open>-EPERM\<close> with the state untouched, \<^verbatim>\<open>-ENOMEM\<close> after the allocation, or the
  parser's status after the allocation, the firmware request and the release.
\<close>

theorem fw_file_write_resync:
  "(fst (iqs5xx_fw_file_write E fw_file s) = 0 \<longrightarrow>
      bl_status (snd (iqs5xx_fw_file_write E fw_file s)) \<noteq> IQS5XX_BL_STATUS_RESET) \<and>
   (bl_status s \<noteq> IQS5XX_BL_STATUS_NONE \<and> kzalloc_ok E \<and>
    fst (fst (iqs5xx_fw_file_parse E fw_file kzalloc_image (emit Kzalloc s))) = 0 \<longrightarrow>
      (\<exists>s1. bl_status s1 = IQS5XX_BL_STATUS_RESET \<and>
            snd (iqs5xx_fw_file_write E fw_file s)
               = emit Kfree (emit MutexUnlock (emit EnableIrq (snd (iqs5xx_dev_init E s1)))) \<and>
            fst (iqs5xx_fw_file_write E fw_file s)
               = (if fst (iqs5xx_dev_init E s1) = 0 \<and>
                     bl_status (snd (iqs5xx_dev_init E s1)) = IQS5XX_BL_STATUS_RESET
                  then - EINVAL else fst (iqs5xx_dev_init E s1)))) \<and>
   (\<not> (bl_status s \<noteq> IQS5XX_BL_STATUS_NONE \<and> kzalloc_ok E \<and>
       fst (fst (iqs5xx_fw_file_parse E fw_file kzalloc_image (emit Kzalloc s))) = 0) \<longrightarrow>
      fst (iqs5xx_fw_file_write E fw_file s) \<noteq> 0 \<and>
      tick (snd (iqs5xx_fw_file_write E fw_file s)) = tick s \<and>
      bl_status (snd (iqs5xx_fw_file_write E fw_file s)) = bl_status s \<and>
      input (snd (iqs5xx_fw_file_write E fw_file s)) = input s) \<and>
   (bl_status s = IQS5XX_BL_STATUS_NONE \<longrightarrow> iqs5xx_fw_file_write E fw_file s = (- EPERM, s)) \<and>
   (bl_status s \<noteq> IQS5XX_BL_STATUS_NONE \<and> \<not> kzalloc_ok E \<longrightarrow>
      iqs5xx_fw_file_write E fw_file s = (- ENOMEM, emit Kzalloc s)) \<and>
   (bl_status s \<noteq> IQS5XX_BL_STATUS_NONE \<and> kzalloc_ok E \<and>
    fst (fst (iqs5xx_fw_file_parse E fw_file kzalloc_image (emit Kzalloc s))) \<noteq> 0 \<longrightarrow>
      iqs5xx_fw_file_write E fw_file s =
        (fst (fst (iqs5xx_fw_file_parse E fw_file kzalloc_image (emit Kzalloc s))),
         emit Kfree (emit (RequestFirmware fw_file) (emit Kzalloc s))))"
proof (intro conjI)
  show "fst (iqs5xx_fw_file_write E fw_file s) = 0 \<longrightarrow>
      bl_status (snd (iqs5xx_fw_file_write E fw_file s)) \<noteq> IQS5XX_BL_STATUS_RESET"
  proof
    assume z: "fst (iqs5xx_fw_file_write E fw_file s) = 0"
    show "bl_status (snd (iqs5xx_fw_file_write E fw_file s)) \<noteq> IQS5XX_BL_STATUS_RESET"
    proof
      assume r: "bl_status (snd (iqs5xx_fw_file_write E fw_file s)) = IQS5XX_BL_STATUS_RESET"
      with z show False
        by (auto simp: iqs5xx_fw_file_write_def fw_flash_resync_def emit_def Let_def
              split: if_splits prod.splits)
    qed
  qed
next
  show "bl_status s \<noteq> IQS5XX_BL_STATUS_NONE \<and> kzalloc_ok E \<and>
    fst (fst (iqs5xx_fw_file_parse E fw_file kzalloc_image (emit Kzalloc s))) = 0 \<longrightarrow>
      (\<exists>s1. bl_status s1 = IQS5XX_BL_STATUS_RESET \<and>
            snd (iqs5xx_fw_file_write E fw_file s)
               = emit Kfree (emit MutexUnlock (emit EnableIrq (snd (iqs5xx_dev_init E s1)))) \<and>
            fst (iqs5xx_fw_file_write E fw_file s)
               = (if fst (iqs5xx_dev_init E s1) = 0 \<and>
                     bl_status (snd (iqs5xx_dev_init E s1)) = IQS5XX_BL_STATUS_RESET
                  then - EINVAL else fst (iqs5xx_dev_init E s1)))"
  proof
    assume g: "bl_status s \<noteq> IQS5XX_BL_STATUS_NONE \<and> kzalloc_ok E \<and>
      fst (fst (iqs5xx_fw_file_parse E fw_file kzalloc_image (emit Kzalloc s))) = 0"
    obtain pmap s1 where p: "iqs5xx_fw_file_parse E fw_file kzalloc_image (emit Kzalloc s) = ((0, pmap), s1)"
      using g by (metis fst_conv surj_pair)
    let ?s2 = "(emit DisableIrq (emit MutexLock s1))\<lparr>bl_status := IQS5XX_BL_STATUS_RESET\<rparr>"
    obtain err s3 where st: "fw_flash_steps E pmap ?s2 = (err, s3)"
      by (metis surj_pair)
    let ?s4 = "if err \<noteq> 0 then iqs5xx_reset s3 else s3"
    from bl_status_fw_flash_steps [of E pmap ?s2] st
    have b: "bl_status ?s4 = IQS5XX_BL_STATUS_RESET"
      by (simp add: bl_status_reset)
    obtain e s5 where d: "iqs5xx_dev_init E ?s4 = (e, s5)"
      by (metis surj_pair)
    from g p st d
    have "snd (iqs5xx_fw_file_write E fw_file s)
               = emit Kfree (emit MutexUnlock (emit EnableIrq s5)) \<and>
          fst (iqs5xx_fw_file_write E fw_file s)
               = (if e = 0 \<and> bl_status s5 = IQS5XX_BL_STATUS_RESET then - EINVAL else e)"
      by (simp add: iqs5xx_fw_file_write_def fw_flash_resync_def)
    with d b show "\<exists>s1. bl_status s1 = IQS5XX_BL_STATUS_RESET \<and>
            snd (iqs5xx_fw_file_write E fw_file s)
               = emit Kfree (emit MutexUnlock (emit EnableIrq (snd (iqs5xx_dev_init E s1)))) \<and>
            fst (iqs5xx_fw_file_write E fw_file s)
               = (if fst (iqs5xx_dev_init E s1) = 0 \<and>
                     bl_status (snd (iqs5xx_dev_init E s1)) = IQS5XX_BL_STATUS_RESET
                  then - EINVAL else fst (iqs5xx_dev_init E s1))"
      by (intro exI [of _ ?s4]) simp
  qed
next
  show "\<not> (bl_status s \<noteq> IQS5XX_BL_STATUS_NONE \<and> kzalloc_ok E \<and>
       fst (fst (iqs5xx_fw_file_parse E fw_file kzalloc_image (emit Kzalloc s))) = 0) \<longrightarrow>
      fst (iqs5xx_fw_file_write E fw_file s) \<noteq> 0 \<and>
      tick (snd (iqs5xx_fw_file_write E fw_file s)) = tick s \<and>
      bl_status (snd (iqs5xx_fw_file_write E fw_file s)) = bl_status s \<and>
      input (snd (iqs5xx_fw_file_write E fw_file s)) = input s"
    using fw_file_write_gate_frame [of s E fw_file] by blast
qed (rule fw_file_write_gates [THEN conjunct1]
          fw_file_write_gates [THEN conjunct2, THEN conjunct1]
          fw_file_write_gates [THEN conjunct2, THEN conjunct2])+

theorem fw_file_write_resync_witness:
  "fst (iqs5xx_fw_file_write (sample_env stale_device fw_eof) ''iqs550.hex'' (sample_state 0xA5)) = 0 \<and>
   bl_status (snd (iqs5xx_fw_file_write (sample_env stale_device fw_eof) ''iqs550.hex''
                     (sample_state 0xA5))) \<noteq> IQS5XX_BL_STATUS_RESET \<and>
   bl_status (sample_state 0xA5) \<noteq> IQS5XX_BL_STATUS_NONE \<and>
   kzalloc_ok (sample_env stale_device fw_eof) \<and>
   fst (fst (iqs5xx_fw_file_parse (sample_env stale_device fw_eof) ''iqs550.hex'' kzalloc_image
               (emit Kzalloc (sample_state 0xA5)))) = 0 \<and>
   (\<exists>s1. bl_status s1 = IQS5XX_BL_STATUS_RESET \<and>
         snd (iqs5xx_fw_file_write (sample_env stale_device fw_eof) ''iqs550.hex'' (sample_state 0xA5))
            = emit Kfree (emit MutexUnlock (emit EnableIrq
                (snd (iqs5xx_dev_init (sample_env stale_device fw_eof) s1)))) \<and>
         fst (iqs5xx_fw_file_write (sample_env stale_device fw_eof) ''iqs550.hex'' (sample_state 0xA5))
            = (if fst (iqs5xx_dev_init (sample_env stale_device fw_eof) s1) = 0 \<and>
                  bl_status (snd (iqs5xx_dev_init (sample_env stale_device fw_eof) s1))
                    = IQS5XX_BL_STATUS_RESET
               then - EINVAL else fst (iqs5xx_dev_init (sample_env stale_device fw_eof) s1))) \<and>
   bl_status (sample_state 0xEE) = IQS5XX_BL_STATUS_NONE \<and>
   iqs5xx_fw_file_write (sample_env stale_device fw_eof) ''iqs550.hex'' (sample_state 0xEE)
     = (- EPERM, sample_state 0xEE) \<and>
   \<not> kzalloc_ok no_memory_env \<and>
   iqs5xx_fw_file_write no_memory_env ''iqs550.hex'' (sample_state 0xA5)
     = (- ENOMEM, emit Kzalloc (sample_state 0xA5)) \<and>
   kzalloc_ok (sample_env no_device []) \<and>
   fst (fst (iqs5xx_fw_file_parse (sample_env no_device []) ''iqs550.hex'' kzalloc_image
               (emit Kzalloc (sample_state 0xA5)))) = - EINVAL \<and>
   iqs5xx_fw_file_write (sample_env no_device []) ''iqs550.hex'' (sample_state 0xA5)
     = (- EINVAL, emit Kfree (emit (RequestFirmware ''iqs550.hex'') (emit Kzalloc (sample_state 0xA5)))) \<and>
   tick (snd (iqs5xx_fw_file_write (sample_env no_device []) ''iqs550.hex'' (sample_state 0xA5)))
     = tick (sample_state 0xA5) \<and>
   bl_status (snd (iqs5xx_fw_file_write (sample_env no_device []) ''iqs550.hex'' (sample_state 0xA5)))
     = bl_status (sample_state 0xA5)"
proof -
  have z: "fst (iqs5xx_fw_file_write (sample_env stale_device fw_eof) ''iqs550.hex''
                  (sample_state 0xA5)) = 0"
    by code_simp
  have g: "bl_status (sample_state 0xA5) \<noteq> IQS5XX_BL_STATUS_NONE \<and>
   kzalloc_ok (sample_env stale_device fw_eof) \<and>
   fst (fst (iqs5xx_fw_file_parse (sample_env stale_device fw_eof) ''iqs550.hex'' kzalloc_image
               (emit Kzalloc (sample_state 0xA5)))) = 0"
    by code_simp
  note t = fw_file_write_resync [of "sample_env stale_device fw_eof" "''iqs550.hex''"
             "sample_state 0xA5"]
  note a = mp [OF t [THEN conjunct1] z]
  note b = mp [OF t [THEN conjunct2, THEN conjunct1] g]
  have n: "bl_status (sample_state 0xEE) = IQS5XX_BL_STATUS_NONE"
    by (simp add: sample_state_def)
  note c = mp [OF fw_file_write_resync [of "sample_env stale_device fw_eof" "''iqs550.hex''"
             "sample_state 0xEE", THEN conjunct2, THEN conjunct2, THEN conjunct2, THEN conjunct1] n]
  have m: "bl_status (sample_state 0xA5) \<noteq> IQS5XX_BL_STATUS_NONE \<and> \<not> kzalloc_ok no_memory_env"
    by (simp add: sample_state_def no_memory_env_def)
  note d = mp [OF fw_file_write_resync [of no_memory_env "''iqs550.hex''" "sample_state 0xA5",
             THEN conjunct2, THEN conjunct2, THEN conjunct2, THEN conjunct2, THEN conjunct1] m]
  have pe: "fst (fst (iqs5xx_fw_file_parse (sample_env no_device []) ''iqs550.hex'' kzalloc_image
               (emit Kzalloc (sample_state 0xA5)))) = - EINVAL"
    by code_simp
  have k: "kzalloc_ok (sample_env no_device [])"
    by (simp add: sample_env_def)
  from pe k
  have q: "bl_status (sample_state 0xA5) \<noteq> IQS5XX_BL_STATUS_NONE \<and> kzalloc_ok (sample_env no_device []) \<and>
    fst (fst (iqs5xx_fw_file_parse (sample_env no_device []) ''iqs550.hex'' kzalloc_image
               (emit Kzalloc (sample_state 0xA5)))) \<noteq> 0"
    by (simp add: sample_state_def)
  note u = fw_file_write_resync [of "sample_env no_device []" "''iqs550.hex''" "sample_state 0xA5"]
  note e = mp [OF u [THEN conjunct2, THEN conjunct2, THEN conjunct2, THEN conjunct2, THEN conjunct2] q]
  from q have "\<not> (bl_status (sample_state 0xA5) \<noteq> IQS5XX_BL_STATUS_NONE \<and>
       kzalloc_ok (sample_env no_device []) \<and>
       fst (fst (iqs5xx_fw_file_parse (sample_env no_device []) ''iqs550.hex'' kzalloc_image
               (emit Kzalloc (sample_state 0xA5)))) = 0)"
    by simp
  note f = mp [OF u [THEN conjunct2, THEN conjunct2, THEN conjunct1] this]
  from z a g b n c m d k pe e f show ?thesis
    by simp
qed

text \<open>
  The claim as first stated has the identification re-run after every call. A call
  whose firmware file does not parse returns before the lock is taken: nothing is
  transferred on the bus, and a stored status \<^verbatim>\<open>IQS5XX_BL_STATUS_RESET\<close> stays.
\<close>

theorem fw_file_write_no_resync_counterexample:
  "iqs5xx_fw_file_write (sample_env no_device []) ''iqs550.hex'' (sample_state 0) =
     (- EINVAL, \<lparr>bl_status = IQS5XX_BL_STATUS_RESET, input = True, tick = 0,
                 log = [Kzalloc, RequestFirmware ''iqs550.hex'', Kfree]\<rparr>)"
  by code_simp

subsection \<open>The block writes of the flash programmer\<close>















































end
